theory Spec2Isabelle
  imports Complex_Main "HOL-Library.Sublist" "HOL-Library.AList" "HOL-Library.Product_Lexorder"
begin

section \<open>Python values shared by all modules\<close>

text \<open>
  Strings are \<open>char list\<close>. Python floats (image ratio, confidences, timeouts) are
  rationals, rounded to binary64 where the code compares or prints them. Exceptions are values: a class and the text of \<open>str(e)\<close>.
  The class hierarchy of \<open>requests.exceptions\<close> is the library's:
  \<open>RequestException\<close> is the root; \<open>HTTPError\<close>, \<open>ConnectionError\<close> and \<open>Timeout\<close>
  derive from it; \<open>ProxyError\<close> and \<open>SSLError\<close> derive from \<open>ConnectionError\<close>;
  \<open>ReadTimeout\<close> derives from \<open>Timeout\<close>; \<open>ConnectTimeout\<close> derives from both
  \<open>ConnectionError\<close> and \<open>Timeout\<close>; \<open>InvalidURL\<close> derives from \<open>RequestException\<close> and from
  \<open>ValueError\<close>.
\<close>

datatype exc_class =
    KeyError | TypeError | ValueError | AttributeError | UnboundLocalError
  | RequestException | HTTPError | ConnectionError | ProxyError | SSLError
  | Timeout | ConnectTimeout | ReadTimeout | InvalidURL

datatype exn = Exn exc_class string

fun exn_class :: "exn \<Rightarrow> exc_class" where
  "exn_class (Exn c m) = c"

fun exn_str :: "exn \<Rightarrow> string" where
  "exn_str (Exn c m) = m"

text \<open>\<open>is_subclass c d\<close>: class \<open>c\<close> is \<open>d\<close> or derives from it (what \<open>except d\<close> catches).\<close>

fun is_subclass :: "exc_class \<Rightarrow> exc_class \<Rightarrow> bool" where
  "is_subclass c RequestException =
     (c \<in> {RequestException, HTTPError, ConnectionError, ProxyError, SSLError,
            Timeout, ConnectTimeout, ReadTimeout, InvalidURL})"
| "is_subclass c ConnectionError = (c \<in> {ConnectionError, ProxyError, SSLError, ConnectTimeout})"
| "is_subclass c Timeout = (c \<in> {Timeout, ConnectTimeout, ReadTimeout})"
| "is_subclass c ValueError = (c \<in> {ValueError, InvalidURL})"
| "is_subclass c d = (c = d)"

definition isinstance :: "exn \<Rightarrow> exc_class \<Rightarrow> bool" where
  "isinstance e d = is_subclass (exn_class e) d"

subsection \<open>Formatting\<close>

definition digit_char :: "nat \<Rightarrow> char" where
  "digit_char d = ''0123456789'' ! (d mod 10)"

fun str_nat :: "nat \<Rightarrow> string" where
  "str_nat n = (if n < 10 then [digit_char n] else str_nat (n div 10) @ [digit_char (n mod 10)])"

declare str_nat.simps [simp del]

definition str_int :: "int \<Rightarrow> string" where
  "str_int i = (if i < 0 then CHR ''-'' # str_nat (nat (- i)) else str_nat (nat i))"

text \<open>\<open>f'{n:03d}'\<close> for a non-negative \<open>n\<close>: decimal, padded with zeros on the left to width
  three (wider numbers are printed in full).\<close>

definition format_03d :: "nat \<Rightarrow> string" where
  "format_03d n = (let s = str_nat n in replicate (3 - length s) CHR ''0'' @ s)"

text \<open>\<open>str(x)\<close> of an optional value inside an f-string: \<open>None\<close> prints as \<open>None\<close>.\<close>

definition str_opt :: "string option \<Rightarrow> string" where
  "str_opt v = (case v of None \<Rightarrow> ''None'' | Some s \<Rightarrow> s)"

definition str_opt_int :: "int option \<Rightarrow> string" where
  "str_opt_int v = (case v of None \<Rightarrow> ''None'' | Some i \<Rightarrow> str_int i)"

fun join :: "string \<Rightarrow> string list \<Rightarrow> string" where
  "join sep [] = []"
| "join sep [x] = x"
| "join sep (x # y # ys) = x @ sep @ join sep (y # ys)"

text \<open>\<open>sub in s\<close> on strings.\<close>

definition contains :: "string \<Rightarrow> string \<Rightarrow> bool" where
  "contains sub s = sublist sub s"

definition round_half_even :: "rat \<Rightarrow> int" where
  "round_half_even x =
     (let f = \<lfloor>x\<rfloor>; r = x - of_int f
      in if r < 1 / 2 then f else if 1 / 2 < r then f + 1 else if even f then f else f + 1)"

text \<open>
  A rational stands for the binary64 float nearest to it. \<open>float_round\<close> is this float
  (round to nearest, ties to even, for values in the normal range; a float is its own
  rounding): the exponent \<open>e\<close> has \<open>2 ^ e \<le> \<bar>x\<bar> < 2 ^ (e + 1)\<close> and the value is
  rounded to a multiple of \<open>2 ^ (e - 52)\<close>.
\<close>

fun bit_length :: "nat \<Rightarrow> nat" where
  "bit_length n = (if n = 0 then 0 else Suc (bit_length (n div 2)))"

declare bit_length.simps [simp del]

definition pow2 :: "int \<Rightarrow> rat" where
  "pow2 k = (if 0 \<le> k then 2 ^ nat k else 1 / 2 ^ nat (- k))"

definition floor_log2 :: "rat \<Rightarrow> int" where
  "floor_log2 x =
     (if 1 \<le> x then int (bit_length (nat \<lfloor>x\<rfloor>)) - 1
      else - int (bit_length (nat (\<lceil>1 / x\<rceil> - 1))))"

definition float_round :: "rat \<Rightarrow> rat" where
  "float_round x =
     (if x = 0 then 0
      else let e = floor_log2 \<bar>x\<bar>;
               m = round_half_even (\<bar>x\<bar> * pow2 (52 - e))
           in (if x < 0 then - 1 else 1) * of_int m * pow2 (e - 52))"

text \<open>\<open>f'{x:.d%}'\<close>: the float is multiplied by 100 in floating point, and the product
  is printed with \<open>d\<close> decimals, correctly rounded, and a percent sign.\<close>

definition format_percent :: "nat \<Rightarrow> rat \<Rightarrow> string" where
  "format_percent d x =
     (let p = float_round (float_round x * 100);
          n = nat (round_half_even (\<bar>p\<bar> * 10 ^ d));
          ip = str_nat (n div 10 ^ d);
          fp = str_nat (n mod 10 ^ d);
          frac = (if d = 0 then [] else CHR ''.'' # replicate (d - length fp) CHR ''0'' @ fp)
      in (if x < 0 then ''-'' else []) @ ip @ frac @ ''%'')"

text \<open>\<open>x > 0.8\<close> on floats.\<close>

definition float_gt :: "rat \<Rightarrow> rat \<Rightarrow> bool" where
  "float_gt x y = (float_round x > float_round y)"

definition ascii_upper :: "char \<Rightarrow> char" where
  "ascii_upper c = (let n = of_char c :: nat in if 97 \<le> n \<and> n \<le> 122 then char_of (n - 32) else c)"

definition ascii_lower :: "char \<Rightarrow> char" where
  "ascii_lower c = (let n = of_char c :: nat in if 65 \<le> n \<and> n \<le> 90 then char_of (n + 32) else c)"

definition upper :: "string \<Rightarrow> string" where
  "upper s = map ascii_upper s"

definition lower :: "string \<Rightarrow> string" where
  "lower s = map ascii_lower s"

section \<open>test_generator.py: the test-case synthesizer\<close>

record test_case =
  TC_ID :: string
  Test_Case_Description :: string
  Test_Step :: string
  Expected_Result :: string
  Actual_Result :: string
  Status :: string

record generator =
  test_cases :: "test_case list"
  tc_counter :: nat

definition TestCaseGenerator_init :: generator where
  "TestCaseGenerator_init = \<lparr>test_cases = [], tc_counter = 1\<rparr>"

definition add_test_case ::
  "string \<Rightarrow> string \<Rightarrow> string \<Rightarrow> string \<Rightarrow> string \<Rightarrow> generator \<Rightarrow> generator" where
  "add_test_case description test_step expected_result actual_result status g =
     g\<lparr>test_cases := test_cases g @
          [\<lparr>TC_ID = ''TC_'' @ format_03d (tc_counter g),
            Test_Case_Description = description,
            Test_Step = test_step,
            Expected_Result = expected_result,
            Actual_Result = actual_result,
            Status = status\<rparr>],
       tc_counter := tc_counter g + 1\<rparr>"

text \<open>
  A method of the generator takes the object and returns it together with the exception
  that ended the call, if any: the test cases added before a raise stay in the object.
\<close>

type_synonym gen_method = "generator \<Rightarrow> generator \<times> exn option"

definition done_ok :: gen_method where
  "done_ok g = (g, None)"

definition raise_exn :: "exn \<Rightarrow> gen_method" where
  "raise_exn e g = (g, Some e)"

definition call_add :: "string \<Rightarrow> string \<Rightarrow> string \<Rightarrow> string \<Rightarrow> string \<Rightarrow> gen_method" where
  "call_add d s e a st g = (add_test_case d s e a st g, None)"

definition and_then :: "gen_method \<Rightarrow> gen_method \<Rightarrow> gen_method" where
  "and_then p q g = (case p g of (g', None) \<Rightarrow> q g' | (g', Some e) \<Rightarrow> (g', Some e))"

fun for_each :: "('a \<Rightarrow> gen_method) \<Rightarrow> 'a list \<Rightarrow> gen_method" where
  "for_each f [] g = (g, None)"
| "for_each f (x # xs) g = and_then (f x) (for_each f xs) g"

definition run_if :: "bool \<Rightarrow> gen_method \<Rightarrow> gen_method" where
  "run_if b p = (if b then p else done_ok)"

text \<open>An argument expression that may raise, followed by the call that uses its value.\<close>

definition eval_then :: "exn + 'a \<Rightarrow> ('a \<Rightarrow> gen_method) \<Rightarrow> gen_method" where
  "eval_then v k = (case v of Inl e \<Rightarrow> raise_exn e | Inr x \<Rightarrow> k x)"

subsection \<open>Link test cases\<close>

record link =
  link_url :: string
  link_text :: string
  link_type :: string

text \<open>A link check as \<open>check_link_accessibility\<close> returns it: the keys \<open>redirect_url\<close> and
  \<open>error\<close> are present in one of the two shapes only (\<open>None\<close> here is an absent key for
  \<open>error\<close>; \<open>status_code\<close> is \<open>None\<close> after a failure).\<close>

record link_check =
  check_url :: string
  check_status_code :: "int option"
  check_is_accessible :: bool
  check_redirect_url :: "string option"
  check_error :: "string option"

definition link_test_cases :: "link \<times> link_check \<Rightarrow> gen_method" where
  "link_test_cases p =
     (let l = fst p; check = snd p in
      and_then
        (call_add (''Verify presence of link: '' @ link_text l)
           (''Check if link with text '' @ [CHR 0x27] @ link_text l @ [CHR 0x27] @ '' exists'')
           ''Link should be present in the page''
           ''Link is present''
           ''Pass'')
        (let status = (if check_is_accessible check then ''Pass'' else ''Fail'');
             actual_result =
               (if check_is_accessible check
                then ''Link is accessible with status code '' @ str_opt_int (check_status_code check)
                else ''Link is not accessible: '' @
                     (case check_error check of
                        Some err \<Rightarrow> err
                      | None \<Rightarrow> ''Status code: '' @ str_opt_int (check_status_code check)))
         in call_add (''Verify accessibility of link: '' @ link_text l)
              (''Try to access URL: '' @ link_url l)
              ''Link should be accessible with 2xx/3xx status code''
              actual_result
              status))"

definition generate_link_test_cases :: "link list \<Rightarrow> link_check list \<Rightarrow> gen_method" where
  "generate_link_test_cases links link_checks = for_each link_test_cases (zip links link_checks)"

subsection \<open>Form test cases\<close>

record form_field =
  field_type :: string
  field_name :: string
  field_id :: string
  field_required :: bool

record form =
  form_action :: string
  form_method :: string
  form_fields :: "form_field list"

definition form_test_cases :: "nat \<times> form \<Rightarrow> gen_method" where
  "form_test_cases p =
     (let i = fst p; fm = snd p;
          required_fields = filter field_required (form_fields fm) in
      and_then
        (call_add (''Verify presence of form #'' @ str_nat i)
           (''Check if form with action '' @ [CHR 0x27] @ form_action fm @ [CHR 0x27] @ '' exists'')
           ''Form should be present in the page''
           ''Form is present''
           ''Pass'')
     (and_then
        (run_if (required_fields \<noteq> [])
           (call_add (''Verify required fields in form #'' @ str_nat i)
              ''Check if required fields are properly marked''
              (''Fields '' @ join '', '' (map field_name required_fields) @ '' should be required'')
              ''All required fields are properly marked''
              ''Pass''))
        (call_add (''Verify form #'' @ str_nat i @ '' submission endpoint'')
           (''Check if form action URL '' @ [CHR 0x27] @ form_action fm @ [CHR 0x27] @ '' is valid'')
           ''Form action URL should be valid''
           (''Form action URL is '' @ (if form_action fm \<noteq> [] then ''valid'' else ''missing''))
           (if form_action fm \<noteq> [] then ''Pass'' else ''Fail''))))"

text \<open>\<open>enumerate(xs, 1)\<close>.\<close>

definition enumerate1 :: "'a list \<Rightarrow> (nat \<times> 'a) list" where
  "enumerate1 xs = zip [1 ..< Suc (length xs)] xs"

definition generate_form_test_cases :: "form list \<Rightarrow> gen_method" where
  "generate_form_test_cases forms = for_each form_test_cases (enumerate1 forms)"

subsection \<open>The page structure\<close>

text \<open>
  The structure is a dictionary. A field of type \<open>option\<close> is a key that may be absent
  (\<open>None\<close>: no such key); a second \<open>option\<close> inside is a value that may be Python's
  \<open>None\<close>. Dictionaries that the generator iterates are association lists in insertion
  order. The values have the types that \<open>extract_page_structure\<close> gives them.
\<close>

record resource_counts =
  res_total :: int
  res_external :: int
  res_inline :: int

record table_info =
  has_caption :: bool
  has_headers :: bool
  table_rows :: int
  table_cols :: int
  has_scope :: bool

record interactive_elements =
  ie_buttons :: int
  ie_inputs :: "(string \<times> int) list"
  ie_select :: int
  ie_textarea :: int
  ie_clickable :: int

record seo_elements =
  seo_canonical :: bool
  seo_h1_count :: int
  seo_meta_description :: bool
  seo_meta_keywords :: bool
  seo_img_alt_ratio :: rat

record security_elements =
  sec_csrf_token :: bool
  sec_external_links :: int
  sec_password_inputs :: int
  sec_forms_with_csrf :: int

record social_meta =
  og_tags :: "(string \<times> string option) list option"
  twitter_tags :: "(string \<times> string option) list option"

record image =
  img_src :: "string option"
  img_alt :: string
  img_title :: string
  img_width :: string
  img_height :: string

record landmark =
  lm_type :: string
  lm_role :: string
  lm_aria_label :: string

record page_structure =
  st_title :: "string option option"
  st_headings :: "(string \<times> string list) list option"
  st_meta :: "(string \<times> string option) list option"
  st_images :: "image list option"
  st_scripts :: "resource_counts option"
  st_stylesheets :: "resource_counts option"
  st_language :: "string option option"
  st_landmarks :: "landmark list option"
  st_lists :: "(string \<times> int) list option"
  st_tables :: "table_info list option"
  st_interactive_elements :: "interactive_elements option"
  st_seo_elements :: "seo_elements option"
  st_security_headers :: "security_elements option"
  st_social_meta :: "social_meta option"

text \<open>Truthiness of an optional string: \<open>None\<close> and the empty string are false.\<close>

definition truthy :: "string option \<Rightarrow> bool" where
  "truthy v = (case v of None \<Rightarrow> False | Some s \<Rightarrow> s \<noteq> [])"

definition meta_test_case :: "string \<times> string option \<Rightarrow> gen_method" where
  "meta_test_case p =
     (let meta_type = fst p; content = snd p in
      call_add (''Verify meta '' @ meta_type)
        (''Check if page has meta '' @ meta_type)
        (''Page should have meta '' @ meta_type)
        (''Meta '' @ meta_type @ '' is '' @ (if truthy content then ''present'' else ''missing''))
        (if truthy content then ''Pass'' else ''Fail''))"

text \<open>\<open>meta.get('viewport') or ''\<close>.\<close>

definition get_or_empty :: "(string \<times> string option) list \<Rightarrow> string \<Rightarrow> string" where
  "get_or_empty m k = (case map_of m k of Some (Some s) \<Rightarrow> s | _ \<Rightarrow> [])"

definition generate_resource_test_cases :: "page_structure \<Rightarrow> gen_method" where
  "generate_resource_test_cases structure =
     and_then
       (case st_scripts structure of
          None \<Rightarrow> done_ok
        | Some scripts \<Rightarrow>
            call_add ''Verify script loading''
              ''Check script inclusion''
              ''Page should load all required scripts''
              (''Found '' @ str_int (res_total scripts) @ '' scripts ('' @
               str_int (res_external scripts) @ '' external, '' @
               str_int (res_inline scripts) @ '' inline)'')
              (if res_total scripts > 0 then ''Pass'' else ''Fail''))
       (case st_stylesheets structure of
          None \<Rightarrow> done_ok
        | Some stylesheets \<Rightarrow>
            call_add ''Verify stylesheet loading''
              ''Check stylesheet inclusion''
              ''Page should load all required stylesheets''
              (''Found '' @ str_int (res_total stylesheets) @ '' stylesheets ('' @
               str_int (res_external stylesheets) @ '' external, '' @
               str_int (res_inline stylesheets) @ '' inline)'')
              (if res_total stylesheets > 0 then ''Pass'' else ''Fail''))"

definition table_test_case :: "nat \<times> table_info \<Rightarrow> gen_method" where
  "table_test_case p =
     (let i = fst p; t = snd p in
      call_add (''Verify table #'' @ str_nat i @ '' accessibility'')
        ''Check table structure and accessibility features''
        ''Table should have proper headers and structure''
        (''Table has '' @ str_int (table_rows t) @ '' rows, '' @ str_int (table_cols t) @
         '' columns, '' @ (if has_headers t then ''has'' else ''lacks'') @ '' headers, '' @
         (if has_caption t then ''has'' else ''lacks'') @ '' caption'')
        (if has_headers t \<and> has_caption t then ''Pass'' else ''Warning''))"

definition generate_table_test_cases :: "table_info list \<Rightarrow> gen_method" where
  "generate_table_test_cases tables = for_each table_test_case (enumerate1 tables)"

definition generate_interactive_element_test_cases :: "interactive_elements \<Rightarrow> gen_method" where
  "generate_interactive_element_test_cases elements =
     (let total_inputs = sum_list (map snd (ie_inputs elements)) in
      call_add ''Verify form elements presence''
        ''Check presence of interactive elements''
        ''Page should have necessary interactive elements''
        (''Found '' @ str_int (ie_buttons elements) @ '' buttons, '' @ str_int total_inputs @
         '' input fields, '' @ str_int (ie_select elements) @ '' select dropdowns, '' @
         str_int (ie_textarea elements) @ '' text areas'')
        (if total_inputs > 0 then ''Pass'' else ''Info''))"

definition generate_seo_test_cases :: "seo_elements \<Rightarrow> gen_method" where
  "generate_seo_test_cases seo =
     call_add ''Verify SEO basics''
       ''Check basic SEO elements''
       ''Page should have basic SEO elements''
       ((if seo_canonical seo then ''Has'' else ''Missing'') @ '' canonical link, '' @
        (if seo_meta_description seo then ''Has'' else ''Missing'') @ '' meta description, '' @
        ''Image alt text ratio: '' @ format_percent 0 (seo_img_alt_ratio seo))
       (if seo_canonical seo \<and> seo_meta_description seo \<and> float_gt (seo_img_alt_ratio seo) (8 / 10)
        then ''Pass'' else ''Warning'')"

definition generate_security_test_cases :: "security_elements \<Rightarrow> gen_method" where
  "generate_security_test_cases security =
     call_add ''Verify security measures''
       ''Check security features''
       ''Page should implement basic security measures''
       (''CSRF protection: '' @ (if sec_csrf_token security then ''Present'' else ''Missing'') @
        '', External links: '' @ str_int (sec_external_links security) @
        '', Password fields: '' @ str_int (sec_password_inputs security))
       (if sec_csrf_token security \<or> sec_password_inputs security = 0
        then ''Pass'' else ''Warning'')"

definition generate_social_media_test_cases :: "social_meta \<Rightarrow> gen_method" where
  "generate_social_media_test_cases social =
     (let og = (case og_tags social of None \<Rightarrow> [] | Some t \<Rightarrow> t);
          tw = (case twitter_tags social of None \<Rightarrow> [] | Some t \<Rightarrow> t) in
      call_add ''Verify social media metadata''
        ''Check social media meta tags''
        ''Page should have social media meta tags''
        (''OpenGraph tags: '' @ str_nat (length og) @ '', Twitter cards: '' @ str_nat (length tw))
        (if og \<noteq> [] \<or> tw \<noteq> [] then ''Pass'' else ''Info''))"

definition generate_structure_test_cases :: "page_structure \<Rightarrow> gen_method" where
  "generate_structure_test_cases structure =
     (let meta = (case st_meta structure of None \<Rightarrow> [] | Some m \<Rightarrow> m) in
      and_then
        (case st_title structure of
           None \<Rightarrow> done_ok
         | Some title \<Rightarrow>
             call_add ''Verify page title''
               ''Check if page has a title''
               ''Page should have a title''
               (''Page title is '' @ [CHR 0x27] @ str_opt title @ [CHR 0x27])
               (if truthy title then ''Pass'' else ''Fail''))
     (and_then (for_each meta_test_case meta)
     (and_then
        (run_if (''viewport'' \<in> fst ` set meta)
           (call_add ''Verify responsive design meta tag''
              ''Check if page has viewport meta tag''
              ''Page should have viewport meta tag for responsiveness''
              (''Viewport meta tag is present: '' @
                 str_opt (case map_of meta ''viewport'' of None \<Rightarrow> None | Some v \<Rightarrow> v))
              (if contains ''width=device-width'' (get_or_empty meta ''viewport'')
               then ''Pass'' else ''Fail'')))
     (and_then (generate_resource_test_cases structure)
     (and_then
        (case st_tables structure of
           None \<Rightarrow> done_ok | Some tables \<Rightarrow> generate_table_test_cases tables)
     (and_then
        (case st_interactive_elements structure of
           None \<Rightarrow> done_ok | Some el \<Rightarrow> generate_interactive_element_test_cases el)
     (and_then
        (case st_seo_elements structure of
           None \<Rightarrow> done_ok | Some seo \<Rightarrow> generate_seo_test_cases seo)
     (and_then
        (case st_security_headers structure of
           None \<Rightarrow> done_ok | Some sec \<Rightarrow> generate_security_test_cases sec)
        (case st_social_meta structure of
           None \<Rightarrow> done_ok | Some social \<Rightarrow> generate_social_media_test_cases social)))))))))"

subsection \<open>Accessibility test cases\<close>

text \<open>\<open>d[k]\<close> on a key that may be absent; \<open>str\<close> of a \<open>KeyError\<close> is the key in quotes.\<close>

definition subscript :: "string \<Rightarrow> 'a option \<Rightarrow> exn + 'a" where
  "subscript k v =
     (case v of None \<Rightarrow> Inl (Exn KeyError ([CHR 0x27] @ k @ [CHR 0x27])) | Some x \<Rightarrow> Inr x)"

definition headings_h1 :: "(string \<times> string list) list \<Rightarrow> string list" where
  "headings_h1 headings = (case map_of headings ''h1'' of None \<Rightarrow> [] | Some hs \<Rightarrow> hs)"

definition generate_accessibility_test_cases :: "page_structure \<Rightarrow> gen_method" where
  "generate_accessibility_test_cases structure =
     eval_then (subscript ''images'' (st_images structure)) (\<lambda>images.
     let images_without_alt = filter (\<lambda>img. img_alt img = []) images in
     and_then
       (call_add ''Verify image alt texts''
          ''Check if all images have alt text''
          ''All images should have alt text''
          (if images_without_alt = [] then ''All images have alt text''
           else str_nat (length images_without_alt) @ '' images missing alt text'')
          (if images_without_alt = [] then ''Pass'' else ''Fail''))
    (eval_then (subscript ''headings'' (st_headings structure)) (\<lambda>headings.
     let has_h1 = (length (headings_h1 headings) > 0);
         multiple_h1s = (length (headings_h1 headings) > 1) in
     and_then
       (call_add ''Verify heading hierarchy''
          ''Check if page has proper heading structure starting with H1''
          ''Page should have at least one H1 heading''
          (if has_h1 then ''Found H1 heading'' else ''No H1 heading found'')
          (if has_h1 then ''Pass'' else ''Fail''))
    (and_then
       (call_add ''Check for multiple H1 headings''
          ''Verify page has only one main H1 heading''
          ''Page should have only one H1 heading''
          (''Found '' @ str_nat (length (headings_h1 headings)) @ '' H1 heading(s)'')
          (if \<not> multiple_h1s then ''Pass'' else ''Fail''))
       (case st_landmarks structure of
          None \<Rightarrow> done_ok
        | Some landmarks \<Rightarrow>
            call_add ''Verify ARIA landmarks''
              ''Check for presence of ARIA landmarks''
              ''Page should have proper ARIA landmarks''
              (''Found '' @ str_nat (length landmarks) @ '' ARIA landmarks'')
              (if landmarks \<noteq> [] then ''Pass'' else ''Fail''))))))"

subsection \<open>Language test cases\<close>

text \<open>
  The language analysis is a dictionary too; its shapes are the three that
  \<open>analyze_language\<close> returns. In \<open>declared_language\<close> the keys \<open>name\<close> and
  \<open>native_name\<close> are absent from the partial results.
\<close>

record declared_language =
  decl_code :: string
  decl_name :: "string option"
  decl_native_name :: "string option"

record detected_language =
  det_code :: string
  det_name :: string
  det_native_name :: string
  det_confidence :: rat

record other_language =
  ol_code :: string
  ol_name :: string
  ol_native :: string
  ol_count :: nat
  ol_confidence :: rat

record translation_link =
  tl_text :: string
  tl_href :: string
  tl_lang :: string

record multilingual_meta =
  alternate_links :: "(string \<times> string) list"
  content_language :: "string option"

record language_elements =
  lang_attributes :: "(string \<times> string) list"
  dir_attributes :: "(string \<times> string) list"
  multilingual :: multilingual_meta
  translation_links :: "translation_link list"

record locale_info =
  loc_language_name :: "string option"
  loc_territory :: "string option"
  loc_script :: "string option"

record language_analysis =
  la_error :: "string option"
  la_declared_language :: "declared_language option option"
  la_detected_language :: "detected_language option option"
  la_other_languages :: "other_language list option"
  la_direction :: "string option"
  la_language_elements :: "language_elements option"
  la_charset :: "string option option"
  la_locale_info :: "locale_info option"

text \<open>\<open>x[k]\<close> where \<open>x\<close> may be \<open>None\<close>: subscripting \<open>None\<close> is a \<open>TypeError\<close>.\<close>

definition not_none :: "'a option \<Rightarrow> exn + 'a" where
  "not_none v =
     (case v of None \<Rightarrow> Inl (Exn TypeError ([CHR 0x27] @ ''NoneType'' @ [CHR 0x27] @ '' object is not subscriptable''))
      | Some x \<Rightarrow> Inr x)"

text \<open>\<open>s.split('-')[0]\<close>.\<close>

definition primary_subtag :: "string \<Rightarrow> string" where
  "primary_subtag s = takeWhile (\<lambda>c. c \<noteq> CHR ''-'') s"

definition str_default :: "string \<Rightarrow> string option \<Rightarrow> string" where
  "str_default d v = (case v of None \<Rightarrow> d | Some s \<Rightarrow> s)"

definition generate_language_test_cases :: "language_analysis \<Rightarrow> gen_method" where
  "generate_language_test_cases la =
     eval_then (subscript ''declared_language'' (la_declared_language la)) (\<lambda>declared.
     eval_then (subscript ''detected_language'' (la_detected_language la)) (\<lambda>detected.
     eval_then (not_none declared) (\<lambda>decl.
     eval_then (if decl_code decl \<noteq> [] then subscript ''name'' (decl_name decl) else Inr [])
       (\<lambda>declared_name.
     and_then
       (call_add ''Verify HTML language declaration''
          ''Check if page has proper language declaration''
          ''Page should have valid language declaration''
          (if decl_code decl \<noteq> []
           then ''Declared language: '' @ declared_name @ '' ('' @ decl_code decl @ '')''
           else ''No language declaration found'')
          (if decl_code decl \<noteq> [] then ''Pass'' else ''Fail''))
    (eval_then (not_none detected) (\<lambda>det.
     and_then
       (call_add ''Verify content language''
          ''Detect main content language''
          ''Content language should be detectable''
          (''Detected language: '' @ det_name det @ '' ('' @ det_code det @ '') with '' @
           format_percent 1 (det_confidence det) @ '' confidence'')
          (if float_gt (det_confidence det) (8 / 10) then ''Pass'' else ''Warning''))
    (and_then
       (run_if (decl_code decl \<noteq> [] \<and> det_code det \<noteq> [])
          (let is_consistent = (primary_subtag (decl_code decl) = det_code det) in
           call_add ''Verify language consistency''
             ''Compare declared vs detected language''
             ''Declared language should match content language''
             (''Declared: '' @ declared_name @ '' ('' @ decl_code decl @ ''), Detected: '' @
              det_name det @ '' ('' @ det_code det @ '')'')
             (if is_consistent then ''Pass'' else ''Fail'')))
    (eval_then (subscript ''other_languages'' (la_other_languages la)) (\<lambda>other_langs.
     and_then
       (run_if (other_langs \<noteq> [])
          (call_add ''Check multi-language content''
             ''Analyze content for multiple languages''
             ''Document should consistently use declared language''
             (''Found content in other languages: '' @
              join '', '' (map (\<lambda>l. ol_name l @ '' ('' @ format_percent 1 (ol_confidence l) @ '')'')
                            other_langs))
             ''Info''))
    (eval_then (subscript ''direction'' (la_direction la)) (\<lambda>direction.
     and_then
       (call_add ''Verify text direction''
          ''Check if text direction is appropriate for the language''
          ''Text direction should match language requirements''
          (''Text direction is '' @ upper direction)
          ''Pass'')
    (let charset = (case la_charset la of None \<Rightarrow> Some ''utf-8'' | Some c \<Rightarrow> c) in
     eval_then
       (case charset of
          None \<Rightarrow> Inl (Exn AttributeError ([CHR 0x27] @ ''NoneType'' @ [CHR 0x27] @ '' object has no attribute '' @ [CHR 0x27] @ ''lower'' @ [CHR 0x27]))
        | Some c \<Rightarrow> Inr c) (\<lambda>cs.
     and_then
       (call_add ''Verify character encoding''
          ''Check character encoding declaration''
          ''Page should use UTF-8 or appropriate encoding''
          (''Character encoding: '' @ cs)
          (if lower cs \<in> {''utf-8'', ''utf8''} then ''Pass'' else ''Warning''))
    (let lang_attrs = (case la_language_elements la of None \<Rightarrow> [] | Some el \<Rightarrow> lang_attributes el);
         tlinks = (case la_language_elements la of None \<Rightarrow> [] | Some el \<Rightarrow> translation_links el) in
     and_then
       (call_add ''Check language annotations''
          ''Verify language attributes on elements''
          ''Multi-language content should be properly marked''
          (''Found '' @ str_nat (length lang_attrs) @ '' elements with language attributes'')
          (if length lang_attrs > 0 \<or> other_langs = [] then ''Pass'' else ''Warning''))
    (and_then
       (run_if (tlinks \<noteq> [])
          (call_add ''Check translation support''
             ''Verify language switching options''
             ''Multi-language sites should offer language selection''
             (''Found '' @ str_nat (length tlinks) @ '' language switcher links'')
             (if length tlinks > 0 then ''Pass'' else ''Info'')))
       (case la_locale_info la of
          None \<Rightarrow> done_ok
        | Some loc \<Rightarrow>
            call_add ''Verify locale information''
              ''Check locale-specific content''
              ''Content should be properly localized''
              (''Language: '' @ str_default ''Unknown'' (loc_language_name loc) @
               '', Territory: '' @ str_default ''Not specified'' (loc_territory loc) @
               '', Script: '' @ str_default ''Not specified'' (loc_script loc))
              ''Info''))))))))))))))))"

subsection \<open>The module-level wrapper \<open>generate_test_cases\<close>\<close>

record parsed_data =
  pd_links :: "link list option"
  pd_forms :: "form list option"
  pd_structure :: "page_structure option"
  pd_language :: "language_analysis option"

text \<open>\<open>try: ... except Exception: pass\<close>.\<close>

definition try_except_pass :: "gen_method \<Rightarrow> gen_method" where
  "try_except_pass p g = (fst (p g), None)"

definition optimistic_check :: "link \<Rightarrow> link_check" where
  "optimistic_check l =
     \<lparr>check_url = link_url l, check_status_code = Some 200, check_is_accessible = True,
      check_redirect_url = None, check_error = None\<rparr>"

text \<open>Truthiness of a dictionary: the empty one, with none of the keys, is false.\<close>

definition empty_structure :: page_structure where
  "empty_structure =
     \<lparr>st_title = None, st_headings = None, st_meta = None, st_images = None,
      st_scripts = None, st_stylesheets = None, st_language = None, st_landmarks = None,
      st_lists = None, st_tables = None, st_interactive_elements = None,
      st_seo_elements = None, st_security_headers = None, st_social_meta = None\<rparr>"

definition empty_language_analysis :: language_analysis where
  "empty_language_analysis =
     \<lparr>la_error = None, la_declared_language = None, la_detected_language = None,
      la_other_languages = None, la_direction = None, la_language_elements = None,
      la_charset = None, la_locale_info = None\<rparr>"

definition generate_test_cases_method :: "parsed_data \<Rightarrow> gen_method" where
  "generate_test_cases_method pd =
     (let links = (case pd_links pd of None \<Rightarrow> [] | Some ls \<Rightarrow> ls);
          link_checks = map optimistic_check links;
          forms = (case pd_forms pd of None \<Rightarrow> [] | Some fs \<Rightarrow> fs) in
      and_then (run_if (links \<noteq> []) (generate_link_test_cases links link_checks))
     (and_then (run_if (forms \<noteq> []) (generate_form_test_cases forms))
     (and_then
        (case pd_structure pd of
           None \<Rightarrow> done_ok
         | Some structure \<Rightarrow>
             run_if (structure \<noteq> empty_structure)
               (and_then (generate_structure_test_cases structure)
                         (generate_accessibility_test_cases structure)))
        (case pd_language pd of
           None \<Rightarrow> done_ok
         | Some language_analysis \<Rightarrow>
             run_if (language_analysis \<noteq> empty_language_analysis)
               (try_except_pass (generate_language_test_cases language_analysis))))))"

definition generate_test_cases :: "parsed_data \<Rightarrow> exn + test_case list" where
  "generate_test_cases pd =
     (case generate_test_cases_method pd TestCaseGenerator_init of
        (gen, None) \<Rightarrow> Inr (test_cases gen)
      | (gen, Some e) \<Rightarrow> Inl e)"

section \<open>Runs of the synthesizer\<close>

type_synonym tc_args = "string \<times> string \<times> string \<times> string \<times> string"

fun add_args :: "generator \<Rightarrow> tc_args \<Rightarrow> generator" where
  "add_args g (d, s, e, a, st) = add_test_case d s e a st g"

definition add_all :: "tc_args list \<Rightarrow> generator \<Rightarrow> generator" where
  "add_all specs g = foldl add_args g specs"

text \<open>A method whose effect is a fixed list of \<open>add_test_case\<close> calls and a fixed outcome,
  whatever the state of the generator it is called on.\<close>

definition uniform :: "gen_method \<Rightarrow> bool" where
  "uniform p = (\<exists>specs r. \<forall>g. p g = (add_all specs g, r))"

text \<open>A method that ends without an exception on every generator.\<close>

definition never_raises :: "gen_method \<Rightarrow> bool" where
  "never_raises p = (\<forall>g. snd (p g) = None)"

text \<open>A run of the synthesizer: a new generator, then any public methods in any order.\<close>

inductive reachable :: "generator \<Rightarrow> bool" where
  reach_init: "reachable TestCaseGenerator_init"
| reach_add: "reachable g \<Longrightarrow> reachable (add_test_case d s e a st g)"
| reach_links: "reachable g \<Longrightarrow> reachable (fst (generate_link_test_cases ls cs g))"
| reach_forms: "reachable g \<Longrightarrow> reachable (fst (generate_form_test_cases fs g))"
| reach_structure: "reachable g \<Longrightarrow> reachable (fst (generate_structure_test_cases structure g))"
| reach_accessibility:
    "reachable g \<Longrightarrow> reachable (fst (generate_accessibility_test_cases structure g))"
| reach_language: "reachable g \<Longrightarrow> reachable (fst (generate_language_test_cases la g))"

definition tc_id :: "nat \<Rightarrow> string" where
  "tc_id k = ''TC_'' @ format_03d k"

definition demo_form :: form where
  "demo_form = \<lparr>form_action = ''http://x.com/login'', form_method = ''POST'', form_fields = []\<rparr>"

section \<open>crawler.py: fetching and probing\<close>

text \<open>
  The functions of \<open>urllib.parse\<close> are library code: \<open>urljoin(base, url)\<close> and
  \<open>urlparse(url).netloc\<close> are parameters, and both may raise (\<open>ValueError\<close> on a malformed
  IPv6 literal, for example). \<open>lib_hostname\<close> is \<open>urlparse(url).hostname\<close>, the host
  without user information and port; the code never calls it.
\<close>

record urllib =
  lib_urljoin :: "string \<Rightarrow> string \<Rightarrow> exn + string"
  lib_netloc :: "string \<Rightarrow> exn + string"
  lib_hostname :: "string \<Rightarrow> exn + string option"

text \<open>
  The network is a parameter as well. A request carries what the code passes to
  \<open>session.get\<close> or \<open>session.head\<close>; the outcome of a request may depend on all the
  requests made so far, so the session maps the history, the current request last, to a
  response or to the exception raised.
\<close>

record request =
  req_verb :: string
  req_url :: string
  req_connect_timeout :: rat
  req_read_timeout :: rat
  req_verify :: bool
  req_allow_redirects :: bool

record response =
  resp_status_code :: int
  resp_text :: string
  resp_url :: string
  resp_history :: "int list"

type_synonym session = "request list \<Rightarrow> exn + response"

definition DEFAULT_CONNECT_TIMEOUT :: rat where
  "DEFAULT_CONNECT_TIMEOUT = 5"

definition DEFAULT_READ_TIMEOUT :: rat where
  "DEFAULT_READ_TIMEOUT = 30"

record crawler =
  crawler_base_url :: string
  crawler_domain :: string
  crawler_timeouts :: "rat \<times> rat"

definition WebCrawler_init :: "urllib \<Rightarrow> string \<Rightarrow> rat \<Rightarrow> rat \<Rightarrow> exn + crawler" where
  "WebCrawler_init lib base_url connect_timeout read_timeout =
     (case lib_netloc lib base_url of
        Inl e \<Rightarrow> Inl e
      | Inr d \<Rightarrow>
          Inr \<lparr>crawler_base_url = base_url, crawler_domain = d,
               crawler_timeouts = (connect_timeout, read_timeout)\<rparr>)"

text \<open>\<open>response.raise_for_status()\<close>: an \<open>HTTPError\<close> for a status from 400 to 599.\<close>

definition raise_for_status :: "response \<Rightarrow> exn + unit" where
  "raise_for_status r =
     (if 400 \<le> resp_status_code r \<and> resp_status_code r < 600
      then Inl (Exn HTTPError (str_int (resp_status_code r) @ '' Error for url: '' @ resp_url r))
      else Inr ())"

definition get_request :: "string \<Rightarrow> rat \<times> rat \<Rightarrow> bool \<Rightarrow> request" where
  "get_request url timeout verify =
     \<lparr>req_verb = ''GET'', req_url = url, req_connect_timeout = fst timeout,
      req_read_timeout = snd timeout, req_verify = verify, req_allow_redirects = True\<rparr>"

text \<open>One \<open>session.get\<close> followed by \<open>raise_for_status\<close> and \<open>response.text\<close>.\<close>

definition get_text_of :: "session \<Rightarrow> request list \<Rightarrow> request \<Rightarrow> (exn + string) \<times> request list" where
  "get_text_of net h req =
     (let h' = h @ [req] in
      (case net h' of
         Inl e \<Rightarrow> Inl e
       | Inr r \<Rightarrow> (case raise_for_status r of Inl e \<Rightarrow> Inl e | Inr u \<Rightarrow> Inr (resp_text r)),
       h'))"

text \<open>
  \<open>WebCrawler.fetch_website_content\<close>. The \<open>except\<close> clauses are tried in the order of the
  source: \<open>Timeout\<close>, \<open>ConnectionError\<close>, \<open>SSLError\<close>, \<open>RequestException\<close>; an exception
  that none of them catches propagates. The result comes with the requests issued.
\<close>

definition fetch_website_content ::
  "session \<Rightarrow> crawler \<Rightarrow> string \<Rightarrow> request list \<Rightarrow> (exn + string) \<times> request list" where
  "fetch_website_content net c url h =
     (case get_text_of net h (get_request url (crawler_timeouts c) True) of
        (Inr text, h1) \<Rightarrow> (Inr text, h1)
      | (Inl e, h1) \<Rightarrow>
          if isinstance e Timeout then
            get_text_of net h1
              (get_request url (fst (crawler_timeouts c), snd (crawler_timeouts c) * 2) True)
          else if isinstance e ConnectionError then (Inl e, h1)
          else if isinstance e SSLError then
            get_text_of net h1 (get_request url (crawler_timeouts c) False)
          else if isinstance e RequestException then (Inl e, h1)
          else (Inl e, h1))"

definition head_request :: "string \<Rightarrow> request" where
  "head_request url =
     \<lparr>req_verb = ''HEAD'', req_url = url, req_connect_timeout = 5, req_read_timeout = 5,
      req_verify = True, req_allow_redirects = True\<rparr>"

text \<open>
  \<open>check_link_accessibility\<close>. \<open>urljoin\<close> is called inside the \<open>try\<close>, whose only handler
  is for \<open>RequestException\<close>; the handler reads \<open>absolute_url\<close>, which is unbound when
  \<open>urljoin\<close> itself raised.
\<close>

definition check_link_accessibility ::
  "urllib \<Rightarrow> session \<Rightarrow> crawler \<Rightarrow> string \<Rightarrow> request list \<Rightarrow>
   (exn + link_check) \<times> request list" where
  "check_link_accessibility lib net c url h =
     (case lib_urljoin lib (crawler_base_url c) url of
        Inl e \<Rightarrow>
          if isinstance e RequestException
          then (Inl (Exn UnboundLocalError ''absolute_url''), h)
          else (Inl e, h)
      | Inr absolute_url \<Rightarrow>
          (let h' = h @ [head_request absolute_url] in
           case net h' of
             Inr r \<Rightarrow>
               (Inr \<lparr>check_url = absolute_url,
                     check_status_code = Some (resp_status_code r),
                     check_is_accessible = (200 \<le> resp_status_code r \<and> resp_status_code r < 400),
                     check_redirect_url = (if resp_history r \<noteq> [] then Some (resp_url r) else None),
                     check_error = None\<rparr>, h')
           | Inl e \<Rightarrow>
               if isinstance e RequestException
               then (Inr \<lparr>check_url = absolute_url, check_status_code = None,
                          check_is_accessible = False, check_redirect_url = None,
                          check_error = Some (exn_str e)\<rparr>, h')
               else (Inl e, h')))"

text \<open>The module-level wrapper \<open>fetch_website_content(url, connect_timeout, read_timeout)\<close>.\<close>

definition fetch_website_content_wrapper ::
  "urllib \<Rightarrow> session \<Rightarrow> string \<Rightarrow> rat option \<Rightarrow> rat option \<Rightarrow> request list \<Rightarrow>
   (exn + string) \<times> request list" where
  "fetch_website_content_wrapper lib net url connect_timeout read_timeout h =
     (let ct = (case connect_timeout of Some t \<Rightarrow> t | None \<Rightarrow> DEFAULT_CONNECT_TIMEOUT);
          rt = (case read_timeout of Some t \<Rightarrow> t | None \<Rightarrow> DEFAULT_READ_TIMEOUT) in
      case WebCrawler_init lib url ct rt of
        Inl e \<Rightarrow> (Inl e, h)
      | Inr c \<Rightarrow>
          (case fetch_website_content net c url h of
             (Inl e, h') \<Rightarrow> (Inl e, h')
           | (Inr text, h') \<Rightarrow>
               (Inr (if \<not> contains ''<html>'' text then ''<html>'' @ text else text), h')))"

subsection \<open>Sample surroundings for the examples\<close>

text \<open>
  The values of \<open>urllib.parse\<close> at the URLs that the examples use, as CPython computes
  them; at every other input the table resolves to the reference and finds no network
  location, as CPython does for the base \<open>example.com\<close> and the reference \<open>x\<close>, which have
  neither scheme nor network location. \<open>urljoin\<close> and \<open>urlparse\<close> raise
  \<open>ValueError: Invalid IPv6 URL\<close> on \<open>http://[::1\<close>, whose bracket is not closed.
\<close>

definition sample_urllib :: urllib where
  "sample_urllib =
     \<lparr>lib_urljoin = (\<lambda>base url.
        if url = ''http://[::1'' then Inl (Exn ValueError ''Invalid IPv6 URL'')
        else if base = ''http://example.com'' \<and> url = ''/about''
          then Inr ''http://example.com/about''
        else Inr url),
      lib_netloc = (\<lambda>url.
        if url = ''http://[::1'' then Inl (Exn ValueError ''Invalid IPv6 URL'')
        else if url \<in> {''http://example.com'', ''http://example.com/about''}
          then Inr ''example.com''
        else if url = ''http://example.com:80/x'' then Inr ''example.com:80''
        else if url = ''http://other.org/'' then Inr ''other.org''
        else Inr []),
      lib_hostname = (\<lambda>url.
        if url = ''http://[::1'' then Inl (Exn ValueError ''Invalid IPv6 URL'')
        else if url \<in> {''http://example.com'', ''http://example.com/about'',
                        ''http://example.com:80/x''}
          then Inr (Some ''example.com'')
        else if url = ''http://other.org/'' then Inr (Some ''other.org'')
        else Inr None)\<rparr>"

definition sample_crawler :: crawler where
  "sample_crawler =
     \<lparr>crawler_base_url = ''http://example.com'', crawler_domain = ''example.com'',
      crawler_timeouts = (DEFAULT_CONNECT_TIMEOUT, DEFAULT_READ_TIMEOUT)\<rparr>"

definition ok_response :: "string \<Rightarrow> string \<Rightarrow> response" where
  "ok_response url text =
     \<lparr>resp_status_code = 200, resp_text = text, resp_url = url, resp_history = []\<rparr>"

text \<open>A server whose certificate fails verification: a request succeeds only with
  verification switched off.\<close>

definition bad_certificate_net :: session where
  "bad_certificate_net h =
     (if req_verify (last h)
      then Inl (Exn SSLError ''certificate verify failed'')
      else Inr (ok_response (req_url (last h)) ''<html><body>hello</body></html>''))"

text \<open>A server that answers every request with the same page.\<close>

definition static_net :: "string \<Rightarrow> session" where
  "static_net page h = Inr (ok_response (req_url (last h)) page)"

text \<open>A server that is too slow for the first read timeout and answers within the doubled one.\<close>

definition slow_net :: session where
  "slow_net h =
     (if req_read_timeout (last h) < 60
      then Inl (Exn ReadTimeout ''Read timed out.'')
      else Inr (ok_response (req_url (last h)) ''<html>slow</html>''))"


definition lang_page :: string where
  "lang_page = ''<html lang=en><body><h1>Hi</h1></body></html>''"

section \<open>The parsed page\<close>

text \<open>
  \<open>BeautifulSoup(html, 'lxml')\<close> is library code; the functions below work on its result,
  a tree of tags (name, attributes, children) and strings. \<open>find_all\<close> visits the tags in
  document order. A character is a code point below 256, so that \<open>length\<close> is Python's
  \<open>len\<close> on such pages.
\<close>

datatype node = Tag string "(string \<times> string) list" "node list" | Text string

type_synonym soup = "node list"

fun all_tags :: "node \<Rightarrow> node list" where
  "all_tags (Text s) = []"
| "all_tags (Tag n a cs) = Tag n a cs # concat (map all_tags cs)"

fun all_strings :: "node \<Rightarrow> string list" where
  "all_strings (Text s) = [s]"
| "all_strings (Tag n a cs) = concat (map all_strings cs)"

fun tag_name :: "node \<Rightarrow> string" where
  "tag_name (Tag n a cs) = n"
| "tag_name (Text s) = []"

fun tag_attrs :: "node \<Rightarrow> (string \<times> string) list" where
  "tag_attrs (Tag n a cs) = a"
| "tag_attrs (Text s) = []"

fun tag_children :: "node \<Rightarrow> node list" where
  "tag_children (Tag n a cs) = cs"
| "tag_children (Text s) = []"

text \<open>\<open>tag.get(k)\<close> and \<open>tag.get(k, d)\<close>.\<close>

definition get_attr :: "node \<Rightarrow> string \<Rightarrow> string option" where
  "get_attr t k = map_of (tag_attrs t) k"

definition get_attr_default :: "node \<Rightarrow> string \<Rightarrow> string \<Rightarrow> string" where
  "get_attr_default t k d = (case get_attr t k of None \<Rightarrow> d | Some v \<Rightarrow> v)"

definition has_attr :: "node \<Rightarrow> string \<Rightarrow> bool" where
  "has_attr t k = (get_attr t k \<noteq> None)"

text \<open>All tags of the soup, and all tags below a tag.\<close>

definition soup_tags :: "soup \<Rightarrow> node list" where
  "soup_tags sp = concat (map all_tags sp)"

definition descendants :: "node \<Rightarrow> node list" where
  "descendants t = soup_tags (tag_children t)"

definition find_all :: "node list \<Rightarrow> string \<Rightarrow> node list" where
  "find_all tags name = filter (\<lambda>t. tag_name t = name) tags"

definition find_all_names :: "node list \<Rightarrow> string list \<Rightarrow> node list" where
  "find_all_names tags names = filter (\<lambda>t. tag_name t \<in> set names) tags"

text \<open>\<open>find\<close>: the first match or \<open>None\<close>.\<close>

definition first_of :: "'a list \<Rightarrow> 'a option" where
  "first_of xs = (case xs of [] \<Rightarrow> None | x # r \<Rightarrow> Some x)"

text \<open>\<open>str.isspace\<close> on code points below 256, \<open>str.strip()\<close>, \<open>str.split()\<close>.\<close>

definition is_space :: "char \<Rightarrow> bool" where
  "is_space c = (let n = of_char c :: nat in (9 \<le> n \<and> n \<le> 13) \<or> (28 \<le> n \<and> n \<le> 32) \<or> n = 133 \<or> n = 160)"

definition strip :: "string \<Rightarrow> string" where
  "strip s = rev (dropWhile is_space (rev (dropWhile is_space s)))"

fun split_ws_acc :: "string \<Rightarrow> string \<Rightarrow> string list" where
  "split_ws_acc w [] = (if w = [] then [] else [rev w])"
| "split_ws_acc w (c # cs) =
     (if is_space c then (if w = [] then split_ws_acc [] cs else rev w # split_ws_acc [] cs)
      else split_ws_acc (c # w) cs)"

definition split_ws :: "string \<Rightarrow> string list" where
  "split_ws s = split_ws_acc [] s"

text \<open>\<open>stripped_strings\<close>: every string of the tree, stripped, the empty ones left out;
  \<open>get_text(strip=True)\<close> joins them without a separator.\<close>

definition stripped_strings :: "node list \<Rightarrow> string list" where
  "stripped_strings ns = filter (\<lambda>s. s \<noteq> []) (map strip (concat (map all_strings ns)))"

definition get_text_strip :: "node \<Rightarrow> string" where
  "get_text_strip t = concat (stripped_strings (tag_children t))"

text \<open>\<open>tag.string\<close>: the only child if it is a string, the \<open>.string\<close> of the only child if
  it is a tag, \<open>None\<close> otherwise.\<close>

fun tag_string :: "node \<Rightarrow> string option" where
  "tag_string (Text s) = Some s"
| "tag_string (Tag n a [c]) = tag_string c"
| "tag_string (Tag n a cs) = None"

text \<open>An attribute with several values (\<open>rel\<close>) matches a string if one of its
  whitespace-separated values is the string.\<close>

definition rel_matches :: "node \<Rightarrow> string \<Rightarrow> bool" where
  "rel_matches t v = (case get_attr t ''rel'' of None \<Rightarrow> False | Some r \<Rightarrow> v \<in> set (split_ws r))"

text \<open>\<open>tag.decompose()\<close> for every tag with one of the given names.\<close>

fun remove_tags :: "string list \<Rightarrow> node \<Rightarrow> node list" where
  "remove_tags names (Text s) = [Text s]"
| "remove_tags names (Tag n a cs) =
     (if n \<in> set names then [] else [Tag n a (concat (map (remove_tags names) cs))])"

definition decompose_all :: "string list \<Rightarrow> soup \<Rightarrow> soup" where
  "decompose_all names sp = concat (map (remove_tags names) sp)"

text \<open>\<open>re.sub(r'\s+', ' ', text)\<close>.\<close>

fun collapse_ws_from :: "bool \<Rightarrow> string \<Rightarrow> string" where
  "collapse_ws_from in_run [] = []"
| "collapse_ws_from in_run (c # cs) =
     (if is_space c
      then (if in_run then collapse_ws_from True cs else CHR '' '' # collapse_ws_from True cs)
      else c # collapse_ws_from False cs)"

definition collapse_ws :: "string \<Rightarrow> string" where
  "collapse_ws s = collapse_ws_from False s"

definition startswith :: "string \<Rightarrow> string \<Rightarrow> bool" where
  "startswith s p = prefix p s"

section \<open>parser.py: links, forms and the page structure\<close>

record web_parser =
  wp_soup :: soup
  wp_base_url :: string

text \<open>\<open>WebParser.__init__\<close>; \<open>bs4_parse\<close> is \<open>BeautifulSoup(html_content, 'lxml')\<close>.\<close>

definition WebParser_init :: "(string \<Rightarrow> soup) \<Rightarrow> string option \<Rightarrow> string option \<Rightarrow> exn + web_parser" where
  "WebParser_init bs4_parse html_content base_url =
     (if \<not> truthy html_content then Inl (Exn ValueError ''HTML content cannot be None or empty'')
      else if \<not> truthy base_url then Inl (Exn ValueError ''Base URL cannot be None or empty'')
      else Inr \<lparr>wp_soup = bs4_parse (the html_content), wp_base_url = the base_url\<rparr>)"

text \<open>The body of the loop of \<open>extract_links\<close> for one anchor that has an \<open>href\<close>
  attribute: no link for an empty \<open>href\<close> or when \<open>urljoin\<close> raises; the type is
  \<open>external\<close> when taking the network location raises.\<close>

definition link_of_anchor :: "urllib \<Rightarrow> string \<Rightarrow> string \<Rightarrow> node \<Rightarrow> link list" where
  "link_of_anchor lib base_url base_netloc a_tag =
     (let href = get_attr_default a_tag ''href'' [] in
      if href = [] then []
      else
        let text = get_text_strip a_tag in
        case lib_urljoin lib base_url href of
          Inl e \<Rightarrow> []
        | Inr absolute_url \<Rightarrow>
            [\<lparr>link_url = absolute_url, link_text = text,
              link_type =
                (case lib_netloc lib absolute_url of
                   Inl e \<Rightarrow> ''external''
                 | Inr link_netloc \<Rightarrow>
                     if link_netloc = base_netloc then ''internal'' else ''external'')\<rparr>])"

text \<open>\<open>find_all('a', href=True)\<close>.\<close>

definition anchors_with_href :: "soup \<Rightarrow> node list" where
  "anchors_with_href sp = filter (\<lambda>t. has_attr t ''href'') (find_all (soup_tags sp) ''a'')"

definition extract_links :: "urllib \<Rightarrow> web_parser \<Rightarrow> exn + link list" where
  "extract_links lib wp =
     (case lib_netloc lib (wp_base_url wp) of
        Inl e \<Rightarrow> Inl e
      | Inr base_netloc \<Rightarrow>
          Inr (concat (map (link_of_anchor lib (wp_base_url wp) base_netloc)
                        (anchors_with_href (wp_soup wp)))))"

text \<open>A list of computations, stopped by the first one that raises.\<close>

fun collect :: "(exn + 'a) list \<Rightarrow> exn + 'a list" where
  "collect [] = Inr []"
| "collect (x # xs) =
     (case x of
        Inl e \<Rightarrow> Inl e
      | Inr v \<Rightarrow> (case collect xs of Inl e \<Rightarrow> Inl e | Inr vs \<Rightarrow> Inr (v # vs)))"

definition field_of :: "node \<Rightarrow> form_field" where
  "field_of f =
     \<lparr>field_type = get_attr_default f ''type'' ''text'',
      field_name = get_attr_default f ''name'' [],
      field_id = get_attr_default f ''id'' [],
      field_required = (get_attr f ''required'' \<noteq> None)\<rparr>"

definition form_of :: "urllib \<Rightarrow> string \<Rightarrow> node \<Rightarrow> exn + form" where
  "form_of lib base_url fm =
     (case lib_urljoin lib base_url (get_attr_default fm ''action'' []) of
        Inl e \<Rightarrow> Inl e
      | Inr action \<Rightarrow>
          Inr \<lparr>form_action = action,
               form_method = upper (get_attr_default fm ''method'' ''get''),
               form_fields =
                 map field_of (find_all_names (descendants fm) [''input'', ''textarea'', ''select''])\<rparr>)"

definition extract_forms :: "urllib \<Rightarrow> web_parser \<Rightarrow> exn + form list" where
  "extract_forms lib wp =
     collect (map (form_of lib (wp_base_url wp)) (find_all (soup_tags (wp_soup wp)) ''form''))"

subsection \<open>The page structure\<close>

text \<open>\<open>find(name, {attr: value})\<close>: the first tag of that name whose attribute has the value.\<close>

definition find_with :: "soup \<Rightarrow> string \<Rightarrow> string \<Rightarrow> string \<Rightarrow> node option" where
  "find_with sp name k v =
     first_of (filter (\<lambda>t. get_attr t k = Some v) (find_all (soup_tags sp) name))"

text \<open>One entry of \<open>meta\<close>: \<open>None\<close> without such a tag, else its \<open>content\<close> or the empty string.\<close>

definition meta_content :: "soup \<Rightarrow> string \<Rightarrow> string option" where
  "meta_content sp name =
     (case find_with sp ''meta'' ''name'' name of
        None \<Rightarrow> None
      | Some t \<Rightarrow> Some (get_attr_default t ''content'' []))"

definition meta_charset :: "soup \<Rightarrow> string option" where
  "meta_charset sp =
     (case first_of (filter (\<lambda>t. has_attr t ''charset'') (find_all (soup_tags sp) ''meta'')) of
        None \<Rightarrow> None
      | Some t \<Rightarrow> Some (get_attr_default t ''charset'' []))"

definition extract_meta :: "soup \<Rightarrow> (string \<times> string option) list" where
  "extract_meta sp =
     [(''description'', meta_content sp ''description''),
      (''keywords'', meta_content sp ''keywords''),
      (''viewport'', meta_content sp ''viewport''),
      (''charset'', meta_charset sp),
      (''robots'', meta_content sp ''robots'')]"

definition image_of :: "node \<Rightarrow> image" where
  "image_of img =
     \<lparr>img_src = get_attr img ''src'', img_alt = get_attr_default img ''alt'' [],
      img_title = get_attr_default img ''title'' [], img_width = get_attr_default img ''width'' [],
      img_height = get_attr_default img ''height'' []\<rparr>"

definition count :: "'a list \<Rightarrow> int" where
  "count xs = int (length xs)"

definition extract_landmarks :: "soup \<Rightarrow> landmark list" where
  "extract_landmarks sp =
     concat (map (\<lambda>element.
        map (\<lambda>el. \<lparr>lm_type = element, lm_role = get_attr_default el ''role'' [],
                    lm_aria_label = get_attr_default el ''aria-label'' []\<rparr>)
          (find_all (soup_tags sp) element))
        [''header'', ''nav'', ''main'', ''article'', ''aside'', ''footer'', ''section''])
     @ concat (map (\<lambda>role.
        map (\<lambda>el. \<lparr>lm_type = tag_name el, lm_role = role,
                    lm_aria_label = get_attr_default el ''aria-label'' []\<rparr>)
          (filter (\<lambda>t. get_attr t ''role'' = Some role) (soup_tags sp)))
        [''banner'', ''navigation'', ''main'', ''complementary'', ''contentinfo''])"

definition analyze_table :: "node \<Rightarrow> table_info" where
  "analyze_table t =
     (let d = descendants t; trs = find_all d ''tr'' in
      \<lparr>has_caption = (find_all d ''caption'' \<noteq> []),
       has_headers = (find_all d ''th'' \<noteq> []),
       table_rows = count trs,
       table_cols = (if trs \<noteq> [] then count (find_all d ''td'') div count trs else 0),
       has_scope = (filter (\<lambda>h. has_attr h ''scope'') (find_all d ''th'') \<noteq> [])\<rparr>)"

definition analyze_tables :: "soup \<Rightarrow> table_info list" where
  "analyze_tables sp = map analyze_table (find_all (soup_tags sp) ''table'')"

definition inputs_of_type :: "soup \<Rightarrow> string \<Rightarrow> node list" where
  "inputs_of_type sp ty = filter (\<lambda>t. get_attr t ''type'' = Some ty) (find_all (soup_tags sp) ''input'')"

text \<open>In \<open>clickable\<close> the dictionary inside the list of names is matched by its key, the
  name \<open>type\<close>.\<close>

definition extract_interactive_elements :: "soup \<Rightarrow> interactive_elements" where
  "extract_interactive_elements sp =
     \<lparr>ie_buttons = count (find_all (soup_tags sp) ''button''),
      ie_inputs = map (\<lambda>ty. (ty, count (inputs_of_type sp ty)))
                    [''text'', ''password'', ''email'', ''checkbox'', ''radio'', ''submit''],
      ie_select = count (find_all (soup_tags sp) ''select''),
      ie_textarea = count (find_all (soup_tags sp) ''textarea''),
      ie_clickable = count (find_all_names (soup_tags sp) [''a'', ''button'', ''input'', ''type''])\<rparr>"

text \<open>\<open>img.get('alt')\<close> is truthy: the attribute is there and not empty.\<close>

definition has_alt_text :: "node \<Rightarrow> bool" where
  "has_alt_text img = truthy (get_attr img ''alt'')"

definition img_alt_ratio :: "soup \<Rightarrow> rat" where
  "img_alt_ratio sp =
     (let imgs = find_all (soup_tags sp) ''img'' in
      if imgs \<noteq> [] then of_nat (length (filter has_alt_text imgs)) / of_nat (length imgs) else 1)"

definition extract_seo_elements :: "soup \<Rightarrow> seo_elements" where
  "extract_seo_elements sp =
     \<lparr>seo_canonical = (filter (\<lambda>t. rel_matches t ''canonical'') (find_all (soup_tags sp) ''link'') \<noteq> []),
      seo_h1_count = count (find_all (soup_tags sp) ''h1''),
      seo_meta_description = (find_with sp ''meta'' ''name'' ''description'' \<noteq> None),
      seo_meta_keywords = (find_with sp ''meta'' ''name'' ''keywords'' \<noteq> None),
      seo_img_alt_ratio = img_alt_ratio sp\<rparr>"

definition is_csrf_input :: "node \<Rightarrow> bool" where
  "is_csrf_input t =
     (tag_name t = ''input'' \<and>
      (case get_attr t ''name'' of None \<Rightarrow> False
       | Some n \<Rightarrow> n \<in> {''csrf_token'', ''_token'', ''_csrf''}))"

text \<open>One anchor of the count of external links: \<open>urlparse\<close> is called, and may raise,
  only for an \<open>href\<close> that starts with \<open>http\<close>.\<close>

definition is_external_anchor :: "urllib \<Rightarrow> string \<Rightarrow> node \<Rightarrow> exn + bool" where
  "is_external_anchor lib base_url a =
     (let href = get_attr_default a ''href'' [] in
      if \<not> (startswith href ''http'' \<or> startswith href ''https'') then Inr False
      else case lib_netloc lib href of
             Inl e \<Rightarrow> Inl e
           | Inr n \<Rightarrow> (case lib_netloc lib base_url of Inl e \<Rightarrow> Inl e | Inr b \<Rightarrow> Inr (n \<noteq> b)))"

definition extract_security_elements :: "urllib \<Rightarrow> web_parser \<Rightarrow> exn + security_elements" where
  "extract_security_elements lib wp =
     (let sp = wp_soup wp in
      case collect (map (is_external_anchor lib (wp_base_url wp)) (anchors_with_href sp)) of
        Inl e \<Rightarrow> Inl e
      | Inr flags \<Rightarrow>
          Inr \<lparr>sec_csrf_token = (filter is_csrf_input (soup_tags sp) \<noteq> []),
               sec_external_links = count (filter (\<lambda>b. b) flags),
               sec_password_inputs = count (inputs_of_type sp ''password''),
               sec_forms_with_csrf =
                 count (filter (\<lambda>fm. filter is_csrf_input (descendants fm) \<noteq> [])
                          (find_all (soup_tags sp) ''form''))\<rparr>)"

text \<open>A dictionary comprehension: a later value for a key replaces the earlier one.\<close>

definition dict_of :: "('k \<times> 'v) list \<Rightarrow> ('k \<times> 'v) list" where
  "dict_of kvs = foldl (\<lambda>d kv. AList.update (fst kv) (snd kv) d) [] kvs"

definition prefixed_meta :: "soup \<Rightarrow> string \<Rightarrow> string \<Rightarrow> (string \<times> string option) list" where
  "prefixed_meta sp k p =
     dict_of (map (\<lambda>t. (get_attr_default t k [], get_attr t ''content''))
       (filter (\<lambda>t. case get_attr t k of None \<Rightarrow> False | Some x \<Rightarrow> x \<noteq> [] \<and> startswith x p)
          (find_all (soup_tags sp) ''meta'')))"

definition extract_social_meta :: "soup \<Rightarrow> social_meta" where
  "extract_social_meta sp =
     \<lparr>og_tags = Some (prefixed_meta sp ''property'' ''og:''),
      twitter_tags = Some (prefixed_meta sp ''name'' ''twitter:'')\<rparr>"

definition extract_page_structure :: "urllib \<Rightarrow> web_parser \<Rightarrow> exn + page_structure" where
  "extract_page_structure lib wp =
     (let sp = wp_soup wp; tags = soup_tags sp in
      case extract_security_elements lib wp of
        Inl e \<Rightarrow> Inl e
      | Inr security \<Rightarrow>
          Inr \<lparr>st_title =
                 Some (case first_of (find_all tags ''title'') of
                         None \<Rightarrow> None | Some t \<Rightarrow> tag_string t),
               st_headings =
                 Some (map (\<lambda>h. (h, map get_text_strip (find_all tags h)))
                         [''h1'', ''h2'', ''h3'', ''h4'', ''h5'', ''h6'']),
               st_meta = Some (extract_meta sp),
               st_images = Some (map image_of (find_all tags ''img'')),
               st_scripts =
                 Some \<lparr>res_total = count (find_all tags ''script''),
                       res_external = count (filter (\<lambda>t. has_attr t ''src'') (find_all tags ''script'')),
                       res_inline = count (filter (\<lambda>t. \<not> has_attr t ''src'') (find_all tags ''script''))\<rparr>,
               st_stylesheets =
                 Some \<lparr>res_total = count (filter (\<lambda>t. rel_matches t ''stylesheet'') (find_all tags ''link'')),
                       res_external = count (filter (\<lambda>t. rel_matches t ''stylesheet'' \<and> has_attr t ''href'')
                                               (find_all tags ''link'')),
                       res_inline = count (find_all tags ''style'')\<rparr>,
               st_language =
                 Some (case first_of (find_all tags ''html'') of
                         None \<Rightarrow> None | Some t \<Rightarrow> get_attr t ''lang''),
               st_landmarks = Some (extract_landmarks sp),
               st_lists = Some (map (\<lambda>l. (l, count (find_all tags l))) [''ul'', ''ol'', ''dl'']),
               st_tables = Some (analyze_tables sp),
               st_interactive_elements = Some (extract_interactive_elements sp),
               st_seo_elements = Some (extract_seo_elements sp),
               st_security_headers = Some security,
               st_social_meta = Some (extract_social_meta sp)\<rparr>)"

text \<open>The module-level wrapper \<open>parse_html\<close>.\<close>

definition parse_html :: "(string \<Rightarrow> soup) \<Rightarrow> urllib \<Rightarrow> string option \<Rightarrow> string \<Rightarrow> exn + parsed_data" where
  "parse_html bs4_parse lib html_content base_url =
     (case WebParser_init bs4_parse html_content (Some base_url) of
        Inl e \<Rightarrow> Inl e
      | Inr wp \<Rightarrow>
          (case extract_links lib wp of
             Inl e \<Rightarrow> Inl e
           | Inr links \<Rightarrow>
               (case extract_forms lib wp of
                  Inl e \<Rightarrow> Inl e
                | Inr forms \<Rightarrow>
                    (case extract_page_structure lib wp of
                       Inl e \<Rightarrow> Inl e
                     | Inr structure \<Rightarrow>
                         Inr \<lparr>pd_links = Some links, pd_forms = Some forms,
                              pd_structure = Some structure, pd_language = None\<rparr>))))"

subsection \<open>A sample page\<close>

text \<open>
  A page with a title, one heading, three anchors (a relative one, one to the same host
  with an explicit port, one without \<open>href\<close>), two images of which one has an \<open>alt\<close> text,
  and no \<open>meta\<close> tag at all.
\<close>

definition sample_soup :: soup where
  "sample_soup =
     [Tag ''html'' [(''lang'', ''en'')]
        [Tag ''head'' [] [Tag ''title'' [] [Text ''Test'']],
         Tag ''body'' []
           [Tag ''h1'' [] [Text ''Hi''],
            Tag ''a'' [(''href'', ''/about'')] [Text ''About''],
            Tag ''a'' [(''href'', ''http://example.com:80/x'')] [Text ''Port''],
            Tag ''a'' [] [Text ''EmptyAnchor''],
            Tag ''img'' [(''src'', ''a.png''), (''alt'', ''logo'')] [],
            Tag ''img'' [(''src'', ''b.png'')] []]]]"

definition sample_parser :: web_parser where
  "sample_parser = \<lparr>wp_soup = sample_soup, wp_base_url = ''http://example.com''\<rparr>"

text \<open>The test cases with a given description.\<close>

definition cases_named :: "string \<Rightarrow> generator \<Rightarrow> test_case list" where
  "cases_named d g = filter (\<lambda>tc. Test_Case_Description tc = d) (test_cases g)"

text \<open>A method that never raises and adds, among the test cases with description \<open>d\<close>,
  exactly those with the statuses \<open>xs\<close>.\<close>

definition emits :: "string \<Rightarrow> string list \<Rightarrow> gen_method \<Rightarrow> bool" where
  "emits d xs p =
     (\<forall>g. snd (p g) = None
        \<and> map Status (cases_named d (fst (p g))) = map Status (cases_named d g) @ xs)"

text \<open>A page whose only \<open>meta\<close> tag is a viewport declaration.\<close>

definition viewport_soup :: soup where
  "viewport_soup =
     [Tag ''html'' []
        [Tag ''head'' []
           [Tag ''meta'' [(''name'', ''viewport''),
                          (''content'', ''width=device-width, initial-scale=1'')] []],
         Tag ''body'' [] [Tag ''p'' [] [Text ''Hello'']]]]"

definition viewport_parser :: web_parser where
  "viewport_parser = \<lparr>wp_soup = viewport_soup, wp_base_url = ''http://example.com''\<rparr>"




text \<open>An absolute URI, in the words of the specification: it starts with a scheme, a letter
  followed by letters, digits, \<open>+\<close>, \<open>-\<close> or \<open>.\<close>, and a colon.\<close>

definition is_alpha :: "char \<Rightarrow> bool" where
  "is_alpha c = (let n = of_char c :: nat in (65 \<le> n \<and> n \<le> 90) \<or> (97 \<le> n \<and> n \<le> 122))"



section \<open>language_analyzer.py\<close>

text \<open>
  The table of language names. A native name with characters outside ASCII is given by
  the bytes of its UTF-8 encoding; no function reads inside a native name.
\<close>

definition LANGUAGE_NAMES :: "(string \<times> string \<times> string) list" where
  "LANGUAGE_NAMES =
     [
      (''en'', (''English'', ''English'')),
      (''es'', (''Spanish'', [CHR 0x45, CHR 0x73, CHR 0x70, CHR 0x61, CHR 0xC3, CHR 0xB1, CHR 0x6F, CHR 0x6C])),
      (''fr'', (''French'', [CHR 0x46, CHR 0x72, CHR 0x61, CHR 0x6E, CHR 0xC3, CHR 0xA7, CHR 0x61, CHR 0x69, CHR 0x73])),
      (''de'', (''German'', ''Deutsch'')),
      (''it'', (''Italian'', ''Italiano'')),
      (''pt'', (''Portuguese'', [CHR 0x50, CHR 0x6F, CHR 0x72, CHR 0x74, CHR 0x75, CHR 0x67, CHR 0x75, CHR 0xC3, CHR 0xAA, CHR 0x73])),
      (''ru'', (''Russian'', [CHR 0xD0, CHR 0xA0, CHR 0xD1, CHR 0x83, CHR 0xD1, CHR 0x81, CHR 0xD1, CHR 0x81, CHR 0xD0, CHR 0xBA, CHR 0xD0, CHR 0xB8, CHR 0xD0, CHR 0xB9])),
      (''ja'', (''Japanese'', [CHR 0xE6, CHR 0x97, CHR 0xA5, CHR 0xE6, CHR 0x9C, CHR 0xAC, CHR 0xE8, CHR 0xAA, CHR 0x9E])),
      (''ko'', (''Korean'', [CHR 0xED, CHR 0x95, CHR 0x9C, CHR 0xEA, CHR 0xB5, CHR 0xAD, CHR 0xEC, CHR 0x96, CHR 0xB4])),
      (''zh'', (''Chinese'', [CHR 0xE4, CHR 0xB8, CHR 0xAD, CHR 0xE6, CHR 0x96, CHR 0x87])),
      (''ar'', (''Arabic'', [CHR 0xD8, CHR 0xA7, CHR 0xD9, CHR 0x84, CHR 0xD8, CHR 0xB9, CHR 0xD8, CHR 0xB1, CHR 0xD8, CHR 0xA8, CHR 0xD9, CHR 0x8A, CHR 0xD8, CHR 0xA9])),
      (''hi'', (''Hindi'', [CHR 0xE0, CHR 0xA4, CHR 0xB9, CHR 0xE0, CHR 0xA4, CHR 0xBF, CHR 0xE0, CHR 0xA4, CHR 0xA8, CHR 0xE0, CHR 0xA5, CHR 0x8D, CHR 0xE0, CHR 0xA4, CHR 0xA6, CHR 0xE0, CHR 0xA5, CHR 0x80])),
      (''nl'', (''Dutch'', ''Nederlands'')),
      (''pl'', (''Polish'', ''Polski'')),
      (''tr'', (''Turkish'', [CHR 0x54, CHR 0xC3, CHR 0xBC, CHR 0x72, CHR 0x6B, CHR 0xC3, CHR 0xA7, CHR 0x65])),
      (''vi'', (''Vietnamese'', [CHR 0x54, CHR 0x69, CHR 0xE1, CHR 0xBA, CHR 0xBF, CHR 0x6E, CHR 0x67, CHR 0x20, CHR 0x56, CHR 0x69, CHR 0xE1, CHR 0xBB, CHR 0x87, CHR 0x74])),
      (''th'', (''Thai'', [CHR 0xE0, CHR 0xB9, CHR 0x84, CHR 0xE0, CHR 0xB8, CHR 0x97, CHR 0xE0, CHR 0xB8, CHR 0xA2])),
      (''sv'', (''Swedish'', ''Svenska'')),
      (''da'', (''Danish'', ''Dansk'')),
      (''fi'', (''Finnish'', ''Suomi''))]"

text \<open>
  Library code is a parameter: \<open>env_parse\<close> is \<open>BeautifulSoup(html, 'lxml')\<close>,
  \<open>env_classify\<close> is \<open>langid.classify\<close> and \<open>env_detect_charset\<close> is the encoding that
  \<open>charset_normalizer.detect\<close> reports for the encoded text. The last two may raise.
\<close>

record lang_env =
  env_parse :: "string \<Rightarrow> soup"
  env_classify :: "string \<Rightarrow> exn + string \<times> rat"
  env_detect_charset :: "string \<Rightarrow> exn + string option"

text \<open>\<open>_extract_text_content\<close> removes the \<open>script\<close>, \<open>style\<close>, \<open>code\<close> and \<open>pre\<close> tags from
  the soup it is given; the caller goes on with the soup so changed.\<close>

definition extract_text_content :: "soup \<Rightarrow> soup \<times> string" where
  "extract_text_content sp =
     (let sp' = decompose_all [''script'', ''style'', ''code'', ''pre''] sp;
          text = join '' '' (stripped_strings sp')
      in (sp', strip (collapse_ws text)))"

definition language_name :: "string \<Rightarrow> (string \<times> string) option" where
  "language_name code = map_of LANGUAGE_NAMES code"

definition dict_append :: "(string \<times> rat list) list \<Rightarrow> string \<Rightarrow> rat \<Rightarrow> (string \<times> rat list) list" where
  "dict_append counts lang conf =
     (case map_of counts lang of
        None \<Rightarrow> counts @ [(lang, [conf])]
      | Some confs \<Rightarrow> AList.update lang (confs @ [conf]) counts)"

text \<open>The samples \<open>text[i:i+step].strip()\<close> for \<open>i\<close> in \<open>range(0, length, step)\<close>.\<close>

definition text_samples :: "string \<Rightarrow> nat \<Rightarrow> string list" where
  "text_samples text step =
     map (\<lambda>k. strip (take step (drop (k * step) text)))
       [0 ..< (length text + step - 1) div step]"

definition count_sample ::
  "lang_env \<Rightarrow> string \<Rightarrow> (string \<times> rat list) list \<Rightarrow> string \<Rightarrow> (string \<times> rat list) list" where
  "count_sample env primary_lang counts sample =
     (if sample = [] then counts
      else case env_classify env sample of
             Inl e \<Rightarrow> counts
           | Inr (lang, conf) \<Rightarrow>
               if lang = primary_lang then counts else dict_append counts lang conf)"

definition other_language_of :: "string \<times> rat list \<Rightarrow> other_language" where
  "other_language_of p =
     (let lang = fst p; confs = snd p;
          avg_conf = (if confs \<noteq> [] then sum_list confs / of_nat (length confs) else 0);
          info = (case language_name lang of None \<Rightarrow> (''Unknown'', ''Unknown'') | Some i \<Rightarrow> i)
      in \<lparr>ol_code = lang, ol_name = fst info, ol_native = snd info,
          ol_count = length confs, ol_confidence = avg_conf\<rparr>)"

text \<open>\<open>results.sort(key=..., reverse=True)\<close>: descending and stable.\<close>

definition sort_descending :: "('a \<Rightarrow> 'k::linorder) \<Rightarrow> 'a list \<Rightarrow> 'a list" where
  "sort_descending key xs = rev (sort_key key (rev xs))"

definition detect_other_languages :: "lang_env \<Rightarrow> string \<Rightarrow> string \<Rightarrow> other_language list" where
  "detect_other_languages env text primary_lang =
     (if text = [] \<or> length text < 50 then []
      else
        let step = max 1 (length text div 8);
            counts = foldl (count_sample env primary_lang) [] (text_samples text step);
            results = map other_language_of counts
        in sort_descending (\<lambda>r. (ol_count r, ol_confidence r)) results)"

definition is_rtl_language :: "string \<Rightarrow> bool" where
  "is_rtl_language lang_code =
     (lang_code \<in> {''ar'', ''fa'', ''he'', ''ur'', ''arc'', ''az'', ''dv'', ''ku'', ''nqo''})"

definition find_lang_attributes :: "soup \<Rightarrow> (string \<times> string) list" where
  "find_lang_attributes sp =
     map (\<lambda>t. (tag_name t, get_attr_default t ''lang'' []))
       (filter (\<lambda>t. has_attr t ''lang'') (soup_tags sp))"

definition find_dir_attributes :: "soup \<Rightarrow> (string \<times> string) list" where
  "find_dir_attributes sp =
     map (\<lambda>t. (tag_name t, get_attr_default t ''dir'' []))
       (filter (\<lambda>t. has_attr t ''dir'') (soup_tags sp))"

text \<open>\<open>tag[k]\<close> raises \<open>KeyError\<close> for a missing attribute.\<close>

definition attr_subscript :: "node \<Rightarrow> string \<Rightarrow> exn + string" where
  "attr_subscript t k = subscript k (get_attr t k)"

definition alternate_link_of :: "node \<Rightarrow> exn + string \<times> string" where
  "alternate_link_of l =
     (case attr_subscript l ''href'' of
        Inl e \<Rightarrow> Inl e
      | Inr href \<Rightarrow>
          (case attr_subscript l ''hreflang'' of Inl e \<Rightarrow> Inl e | Inr hl \<Rightarrow> Inr (href, hl)))"

definition find_multilingual_meta :: "soup \<Rightarrow> exn + multilingual_meta" where
  "find_multilingual_meta sp =
     (case collect (map alternate_link_of
             (filter (\<lambda>t. rel_matches t ''alternate'' \<and> has_attr t ''hreflang'')
                (find_all (soup_tags sp) ''link''))) of
        Inl e \<Rightarrow> Inl e
      | Inr links \<Rightarrow>
          (case find_with sp ''meta'' ''http-equiv'' ''content-language'' of
             None \<Rightarrow> Inr \<lparr>alternate_links = links, content_language = None\<rparr>
           | Some m \<Rightarrow>
               (case attr_subscript m ''content'' of
                  Inl e \<Rightarrow> Inl e
                | Inr c \<Rightarrow> Inr \<lparr>alternate_links = links, content_language = Some c\<rparr>)))"

text \<open>
  The patterns of language switcher links. \<open>lang|language|translate\<close>, ignoring case,
  is searched in the attribute; the second pattern is \<open>[?&]lang=\<close> or
  \<open>/[a-z]{2}(?:-[A-Z]{2})?/\<close>, ignoring case.
\<close>

definition matches_lang_word :: "string \<Rightarrow> bool" where
  "matches_lang_word s = (contains ''lang'' (lower s) \<or> contains ''translate'' (lower s))"

definition href_pattern_here :: "string \<Rightarrow> bool" where
  "href_pattern_here s =
     (case s of
        [] \<Rightarrow> False
      | c # cs \<Rightarrow>
          (c \<in> {CHR ''?'', CHR ''&''} \<and> lower (take 5 cs) = ''lang='')
          \<or> (c = CHR ''/'' \<and> length cs \<ge> 3 \<and> is_alpha (cs ! 0) \<and> is_alpha (cs ! 1)
              \<and> (cs ! 2 = CHR ''/''
                  \<or> (length cs \<ge> 6 \<and> cs ! 2 = CHR ''-'' \<and> is_alpha (cs ! 3)
                      \<and> is_alpha (cs ! 4) \<and> cs ! 5 = CHR ''/''))))"

fun matches_href_pattern :: "string \<Rightarrow> bool" where
  "matches_href_pattern [] = False"
| "matches_href_pattern (c # cs) = (href_pattern_here (c # cs) \<or> matches_href_pattern cs)"

definition translation_link_of :: "node \<Rightarrow> translation_link" where
  "translation_link_of l =
     \<lparr>tl_text = get_text_strip l, tl_href = get_attr_default l ''href'' [],
      tl_lang = get_attr_default l ''hreflang'' []\<rparr>"

text \<open>The first pattern is passed as the dictionary \<open>{'class_': ...}\<close>, which names an
  attribute \<open>class_\<close>.\<close>

definition find_translation_links :: "soup \<Rightarrow> translation_link list" where
  "find_translation_links sp =
     (let anchors = find_all (soup_tags sp) ''a'';
          by_attr = (\<lambda>k p. filter (\<lambda>t. case get_attr t k of None \<Rightarrow> False | Some v \<Rightarrow> p v) anchors)
      in map translation_link_of
           (by_attr ''class_'' matches_lang_word @ by_attr ''id'' matches_lang_word
            @ by_attr ''href'' matches_href_pattern))"

definition empty_language_elements :: language_elements where
  "empty_language_elements =
     \<lparr>lang_attributes = [], dir_attributes = [],
      multilingual = \<lparr>alternate_links = [], content_language = None\<rparr>,
      translation_links = []\<rparr>"

definition analyze_language_elements :: "soup \<Rightarrow> language_elements" where
  "analyze_language_elements sp =
     (case find_multilingual_meta sp of
        Inl e \<Rightarrow> empty_language_elements
      | Inr mm \<Rightarrow>
          \<lparr>lang_attributes = find_lang_attributes sp, dir_attributes = find_dir_attributes sp,
           multilingual = mm, translation_links = find_translation_links sp\<rparr>)"

definition detect_charset :: "lang_env \<Rightarrow> string \<Rightarrow> string option" where
  "detect_charset env content =
     (case env_detect_charset env content of Inl e \<Rightarrow> Some ''utf-8'' | Inr enc \<Rightarrow> enc)"

definition declared_only :: "string \<Rightarrow> declared_language option" where
  "declared_only declared_lang =
     (if declared_lang \<noteq> []
      then Some \<lparr>decl_code = declared_lang, decl_name = None, decl_native_name = None\<rparr>
      else None)"

text \<open>The name of the declared language: looked up under the part before the first
  hyphen.\<close>

definition declared_name :: "string \<Rightarrow> ((string \<times> string) \<Rightarrow> string) \<Rightarrow> string" where
  "declared_name declared_lang part =
     (if declared_lang \<noteq> []
      then (case language_name (primary_subtag declared_lang) of
              None \<Rightarrow> ''Not declared'' | Some i \<Rightarrow> part i)
      else ''Not declared'')"

definition analyze_language :: "lang_env \<Rightarrow> string option \<Rightarrow> string \<Rightarrow> exn + language_analysis" where
  "analyze_language env html_content url =
     (case html_content of
        None \<Rightarrow> Inl (Exn ValueError ''HTML content cannot be None'')
      | Some html \<Rightarrow>
          let sp = env_parse env html;
              declared_lang =
                (case first_of (find_all (soup_tags sp) ''html'') of
                   None \<Rightarrow> [] | Some t \<Rightarrow> get_attr_default t ''lang'' []);
              sp' = fst (extract_text_content sp);
              text_content = snd (extract_text_content sp)
          in
          if text_content = [] \<or> length (strip text_content) < 10
          then Inr \<lparr>la_error = Some ''Insufficient text content for language analysis'',
                    la_declared_language = Some (declared_only declared_lang),
                    la_detected_language = Some None,
                    la_other_languages = Some [],
                    la_direction = Some ''ltr'',
                    la_language_elements = Some (analyze_language_elements sp'),
                    la_charset = Some (detect_charset env html),
                    la_locale_info = None\<rparr>
          else
            (case env_classify env text_content of
               Inl e \<Rightarrow>
                 Inr \<lparr>la_error = Some (''Language detection failed: '' @ exn_str e),
                      la_declared_language = Some (declared_only declared_lang),
                      la_detected_language = None, la_other_languages = None,
                      la_direction = None, la_language_elements = None,
                      la_charset = None, la_locale_info = None\<rparr>
             | Inr (detected_lang, confidence) \<Rightarrow>
                 let lang_info = (case language_name detected_lang of
                                    None \<Rightarrow> (''Unknown'', ''Unknown'') | Some i \<Rightarrow> i);
                     other_langs = detect_other_languages env text_content detected_lang
                 in Inr \<lparr>la_error = None,
                         la_declared_language =
                           Some (Some \<lparr>decl_code = declared_lang,
                                       decl_name = Some (declared_name declared_lang fst),
                                       decl_native_name = Some (declared_name declared_lang snd)\<rparr>),
                         la_detected_language =
                           Some (Some \<lparr>det_code = detected_lang, det_name = fst lang_info,
                                       det_native_name = snd lang_info,
                                       det_confidence = confidence\<rparr>),
                         la_other_languages = Some other_langs,
                         la_direction =
                           Some (if is_rtl_language detected_lang then ''rtl'' else ''ltr''),
                         la_language_elements = Some (analyze_language_elements sp'),
                         la_charset = Some (detect_charset env html),
                         la_locale_info = None\<rparr>))"

text \<open>The dictionary that \<open>analyze_language\<close> returns from its branch for too little
  text, as a function of the page.\<close>

definition short_circuit_result :: "lang_env \<Rightarrow> string \<Rightarrow> language_analysis" where
  "short_circuit_result env html =
     (let sp = env_parse env html;
          declared_lang =
            (case first_of (find_all (soup_tags sp) ''html'') of
               None \<Rightarrow> [] | Some t \<Rightarrow> get_attr_default t ''lang'' [])
      in \<lparr>la_error = Some ''Insufficient text content for language analysis'',
          la_declared_language =
            Some (if declared_lang \<noteq> []
                  then Some \<lparr>decl_code = declared_lang, decl_name = None, decl_native_name = None\<rparr>
                  else None),
          la_detected_language = Some None,
          la_other_languages = Some [],
          la_direction = Some ''ltr'',
          la_language_elements =
            Some (analyze_language_elements (fst (extract_text_content sp))),
          la_charset = Some (detect_charset env html),
          la_locale_info = None\<rparr>)"

section \<open>app.py: the route \<open>analyze\<close>\<close>

text \<open>
  The five generator methods in the order in which \<open>analyze\<close> calls them on a new
  generator.
\<close>

definition run_synthesizer ::
  "link list \<Rightarrow> link_check list \<Rightarrow> form list \<Rightarrow> page_structure \<Rightarrow> language_analysis \<Rightarrow>
   gen_method" where
  "run_synthesizer links link_checks forms structure language_analysis =
     and_then (generate_link_test_cases links link_checks)
    (and_then (generate_form_test_cases forms)
    (and_then (generate_structure_test_cases structure)
    (and_then (generate_accessibility_test_cases structure)
              (generate_language_test_cases language_analysis))))"

text \<open>
  A response of the route is the rendered report (test cases, file name, summary) or a
  JSON error with its message and status. The file name is built from the clock.
\<close>

record summary =
  sum_total :: nat
  sum_passed :: nat
  sum_failed :: nat

datatype http_response =
    Rendered "test_case list" string summary
  | JsonError string nat

text \<open>The handler of the route's outer \<open>try\<close>.\<close>

definition outer_error :: "exn \<Rightarrow> http_response" where
  "outer_error e = JsonError (''An error occurred while analyzing the website: '' @ exn_str e) 500"

text \<open>The generation step: it runs inside the outer \<open>try\<close> only, so an exception of any
  of the five methods ends the request with status 500.\<close>

definition analyze_generate ::
  "string \<Rightarrow> link list \<Rightarrow> link_check list \<Rightarrow> form list \<Rightarrow> page_structure \<Rightarrow>
   language_analysis \<Rightarrow> http_response" where
  "analyze_generate timestamp links link_checks forms structure language_analysis =
     (case run_synthesizer links link_checks forms structure language_analysis
             TestCaseGenerator_init of
        (gen, None) \<Rightarrow>
          Rendered (test_cases gen) (''test_cases_'' @ timestamp @ ''.csv'')
            \<lparr>sum_total = length (test_cases gen),
             sum_passed = length (filter (\<lambda>tc. Status tc = ''Pass'') (test_cases gen)),
             sum_failed = length (filter (\<lambda>tc. Status tc = ''Fail'') (test_cases gen))\<rparr>
      | (gen, Some e) \<Rightarrow> outer_error e)"

text \<open>\<open>[crawler.check_link_accessibility(link['url']) for link in links]\<close>.\<close>

fun check_links ::
  "urllib \<Rightarrow> session \<Rightarrow> crawler \<Rightarrow> link list \<Rightarrow> request list \<Rightarrow>
   (exn + link_check list) \<times> request list" where
  "check_links lib net c [] h = (Inr [], h)"
| "check_links lib net c (l # ls) h =
     (case check_link_accessibility lib net c (link_url l) h of
        (Inl e, h') \<Rightarrow> (Inl e, h')
      | (Inr lc, h') \<Rightarrow>
          (case check_links lib net c ls h' of
             (Inl e, h'') \<Rightarrow> (Inl e, h'')
           | (Inr lcs, h'') \<Rightarrow> (Inr (lc # lcs), h'')))"

text \<open>The parsing step of \<open>analyze\<close>: the parser and the language analyzer each parse the
  content on their own.\<close>

definition parse_and_analyze ::
  "urllib \<Rightarrow> lang_env \<Rightarrow> string \<Rightarrow> string \<Rightarrow>
   exn + (link list \<times> form list \<times> page_structure \<times> language_analysis)" where
  "parse_and_analyze lib env content url =
     (case WebParser_init (env_parse env) (Some content) (Some url) of
        Inl e \<Rightarrow> Inl e
      | Inr wp \<Rightarrow>
          (case extract_links lib wp of
             Inl e \<Rightarrow> Inl e
           | Inr links \<Rightarrow>
               (case extract_forms lib wp of
                  Inl e \<Rightarrow> Inl e
                | Inr forms \<Rightarrow>
                    (case extract_page_structure lib wp of
                       Inl e \<Rightarrow> Inl e
                     | Inr structure \<Rightarrow>
                         (case analyze_language env (Some content) url of
                            Inl e \<Rightarrow> Inl e
                          | Inr la \<Rightarrow> Inr (links, forms, structure, la))))))"

text \<open>
  The route. \<open>url_valid\<close> is \<open>validators.url\<close> and \<open>timestamp\<close> the formatted clock; writing
  the CSV file is left out. Of a JSON error the message under \<open>error\<close> is kept.
\<close>

definition analyze ::
  "urllib \<Rightarrow> lang_env \<Rightarrow> session \<Rightarrow> (string \<Rightarrow> bool) \<Rightarrow> string \<Rightarrow> string option \<Rightarrow> http_response" where
  "analyze lib env net url_valid timestamp url_field =
     (if \<not> truthy url_field \<or> \<not> url_valid (the url_field)
      then JsonError
             ''Invalid URL provided. Please enter a valid URL including http:// or https://'' 400
      else
        let url = the url_field in
        case WebCrawler_init lib url 5 30 of
          Inl e \<Rightarrow> outer_error e
        | Inr c \<Rightarrow>
            (case fetch_website_content net c url [] of
               (Inl e, h) \<Rightarrow>
                 if isinstance e Timeout
                 then JsonError ''The website took too long to respond. Please try again later.'' 504
                 else if isinstance e ConnectionError
                 then JsonError ''Could not establish a connection to the website.'' 502
                 else if isinstance e SSLError
                 then JsonError ''Failed to establish a secure connection to the website.'' 526
                 else if isinstance e RequestException
                 then JsonError
                        ''Failed to fetch website content. Please verify the URL is accessible.'' 502
                 else outer_error e
             | (Inr content, h) \<Rightarrow>
                 if content = [] \<or> strip content = []
                 then JsonError ''The website returned empty content.'' 422
                 else
                   (case parse_and_analyze lib env content url of
                      Inl e \<Rightarrow>
                        if isinstance e ValueError
                        then JsonError ''Failed to parse website content.'' 422
                        else JsonError ''An error occurred while analyzing the website.'' 500
                    | Inr (links, forms, structure, language_analysis) \<Rightarrow>
                        (case check_links lib net c links h of
                           (Inl e, h') \<Rightarrow> outer_error e
                         | (Inr link_checks, h') \<Rightarrow>
                             analyze_generate timestamp links link_checks forms structure
                               language_analysis))))"

subsection \<open>A page with too little text\<close>

text \<open>The page \<open><html lang=en><body><h1>Hi</h1></body></html>\<close> and its tree.\<close>

definition short_soup :: soup where
  "short_soup =
     [Tag ''html'' [(''lang'', ''en'')] [Tag ''body'' [] [Tag ''h1'' [] [Text ''Hi'']]]]"

definition short_env :: lang_env where
  "short_env =
     \<lparr>env_parse = (\<lambda>html. if html = lang_page then short_soup else []),
      env_classify = (\<lambda>text. Inr (''en'', 1)),
      env_detect_charset = (\<lambda>content. Inr (Some ''ascii''))\<rparr>"

text \<open>The test cases that a method appends to the generator it is called on.\<close>

definition appended :: "gen_method \<Rightarrow> generator \<Rightarrow> test_case list" where
  "appended p g = drop (length (test_cases g)) (test_cases (fst (p g)))"

definition numbered :: "nat \<Rightarrow> tc_args list \<Rightarrow> test_case list" where
  "numbered c specs = test_cases (add_all specs \<lparr>test_cases = [], tc_counter = c\<rparr>)"

text \<open>A structure with the two keys that the accessibility method subscripts, and a
  complete language analysis.\<close>

definition demo_structure :: page_structure where
  "demo_structure = empty_structure\<lparr>st_images := Some [], st_headings := Some []\<rparr>"

definition demo_language_analysis :: language_analysis where
  "demo_language_analysis =
     \<lparr>la_error = None,
      la_declared_language =
        Some (Some \<lparr>decl_code = ''en'', decl_name = Some ''English'',
                    decl_native_name = Some ''English''\<rparr>),
      la_detected_language =
        Some (Some \<lparr>det_code = ''en'', det_name = ''English'', det_native_name = ''English'',
                    det_confidence = 99 / 100\<rparr>),
      la_other_languages = Some [], la_direction = Some ''ltr'', la_language_elements = None,
      la_charset = Some (Some ''utf-8''), la_locale_info = None\<rparr>"

section \<open>Properties of the synthesizer\<close>

subsection \<open>Every method only appends through \<open>add_test_case\<close>\<close>

lemma add_all_Nil: "add_all [] g = g"
  by (simp add: add_all_def)

lemma add_all_append: "add_all (xs @ ys) g = add_all ys (add_all xs g)"
  by (simp add: add_all_def)

lemma add_all_single: "add_all [(d, s, e, a, st)] g = add_test_case d s e a st g"
  by (simp add: add_all_def)

lemma uniformI: "(\<And>g. p g = (add_all specs g, r)) \<Longrightarrow> uniform p"
  unfolding uniform_def by blast

lemma uniform_done_ok: "uniform done_ok"
  by (rule uniformI [of _ "[]" None]) (simp add: done_ok_def add_all_Nil)

lemma uniform_raise_exn: "uniform (raise_exn e)"
  by (rule uniformI [of _ "[]" "Some e"]) (simp add: raise_exn_def add_all_Nil)

lemma uniform_call_add: "uniform (call_add d s e a st)"
  by (rule uniformI [of _ "[(d, s, e, a, st)]" None]) (simp add: call_add_def add_all_single)

lemma uniform_and_then:
  assumes "uniform p" and "uniform q"
  shows "uniform (and_then p q)"
proof -
  obtain xs rp where p: "\<And>g. p g = (add_all xs g, rp)"
    using assms(1) unfolding uniform_def by blast
  obtain ys rq where q: "\<And>g. q g = (add_all ys g, rq)"
    using assms(2) unfolding uniform_def by blast
  show ?thesis
  proof (cases rp)
    case None
    have "\<And>g. and_then p q g = (add_all (xs @ ys) g, rq)"
      by (simp add: and_then_def p q None add_all_append)
    then show ?thesis by (rule uniformI)
  next
    case (Some e)
    have "\<And>g. and_then p q g = (add_all xs g, Some e)"
      by (simp add: and_then_def p Some)
    then show ?thesis by (rule uniformI)
  qed
qed

lemma uniform_for_each:
  assumes "\<And>x. uniform (f x)"
  shows "uniform (for_each f xs)"
proof (induction xs)
  case Nil
  have "for_each f [] = done_ok"
    by (rule ext) (simp add: done_ok_def)
  then show ?case by (simp add: uniform_done_ok)
next
  case (Cons x xs)
  have "for_each f (x # xs) = and_then (f x) (for_each f xs)"
    by (rule ext) simp
  then show ?case using uniform_and_then [OF assms Cons] by simp
qed

lemma uniform_run_if: "uniform p \<Longrightarrow> uniform (run_if b p)"
  by (simp add: run_if_def uniform_done_ok)

lemma uniform_eval_then:
  assumes "\<And>x. uniform (k x)"
  shows "uniform (eval_then v k)"
  by (cases v) (simp_all add: eval_then_def uniform_raise_exn assms)

lemma uniform_try_except_pass:
  assumes "uniform p"
  shows "uniform (try_except_pass p)"
proof -
  obtain xs rp where p: "\<And>g. p g = (add_all xs g, rp)"
    using assms unfolding uniform_def by blast
  have "\<And>g. try_except_pass p g = (add_all xs g, None)"
    by (simp add: try_except_pass_def p)
  then show ?thesis by (rule uniformI)
qed

lemma uniform_case_option:
  assumes "uniform p" and "\<And>x. uniform (q x)"
  shows "uniform (case v of None \<Rightarrow> p | Some x \<Rightarrow> q x)"
  using assms by (cases v) simp_all

lemmas uniform_intros =
  uniform_done_ok uniform_raise_exn uniform_call_add uniform_and_then uniform_for_each
  uniform_run_if uniform_eval_then uniform_try_except_pass uniform_case_option

lemma uniform_links: "uniform (generate_link_test_cases ls cs)"
  unfolding generate_link_test_cases_def link_test_cases_def Let_def
  by (intro uniform_intros)

lemma uniform_forms: "uniform (generate_form_test_cases fs)"
  unfolding generate_form_test_cases_def form_test_cases_def Let_def
  by (intro uniform_intros)

lemma uniform_resources: "uniform (generate_resource_test_cases s)"
  unfolding generate_resource_test_cases_def
  by (intro uniform_intros)

lemma uniform_structure: "uniform (generate_structure_test_cases s)"
  unfolding generate_structure_test_cases_def meta_test_case_def generate_table_test_cases_def
    table_test_case_def generate_interactive_element_test_cases_def generate_seo_test_cases_def
    generate_security_test_cases_def generate_social_media_test_cases_def Let_def
  by (intro uniform_intros uniform_resources)

lemma uniform_accessibility: "uniform (generate_accessibility_test_cases s)"
  unfolding generate_accessibility_test_cases_def Let_def
  by (intro uniform_intros)

lemma uniform_language: "uniform (generate_language_test_cases la)"
  unfolding generate_language_test_cases_def Let_def
  by (intro uniform_intros)

lemma uniform_wrapper: "uniform (generate_test_cases_method pd)"
  unfolding generate_test_cases_method_def Let_def
  by (intro uniform_intros uniform_links uniform_forms uniform_structure
      uniform_accessibility uniform_language)

lemma appendsD: "uniform p \<Longrightarrow> \<exists>specs. fst (p g) = add_all specs g"
  unfolding uniform_def by (metis fst_conv)

subsection \<open>Numbering\<close>

lemma add_all_counter: "tc_counter (add_all specs g) = tc_counter g + length specs"
proof (induction specs arbitrary: g)
  case Nil
  then show ?case by (simp add: add_all_def)
next
  case (Cons x xs)
  obtain d s e a st where x: "x = (d, s, e, a, st)" by (cases x) auto
  have "add_all (x # xs) g = add_all xs (add_test_case d s e a st g)"
    by (simp add: add_all_def x)
  then show ?case using Cons [of "add_test_case d s e a st g"]
    by (simp add: add_test_case_def)
qed

lemma add_all_ids:
  "map TC_ID (test_cases (add_all specs g)) =
     map TC_ID (test_cases g) @ map tc_id [tc_counter g ..< tc_counter g + length specs]"
proof (induction specs arbitrary: g)
  case Nil
  then show ?case by (simp add: add_all_def)
next
  case (Cons x xs)
  obtain d s e a st where x: "x = (d, s, e, a, st)" by (cases x) auto
  let ?g = "add_test_case d s e a st g"
  have step: "add_all (x # xs) g = add_all xs ?g"
    by (simp add: add_all_def x)
  have c: "tc_counter ?g = Suc (tc_counter g)"
    by (simp add: add_test_case_def)
  have ids: "map TC_ID (test_cases ?g) = map TC_ID (test_cases g) @ [tc_id (tc_counter g)]"
    by (simp add: add_test_case_def tc_id_def)
  have "[tc_counter g ..< tc_counter g + length (x # xs)] =
        tc_counter g # [Suc (tc_counter g) ..< Suc (tc_counter g) + length xs]"
    by (simp add: upt_rec)
  then show ?case using Cons [of ?g] step c ids by simp
qed

lemma add_all_length: "length (test_cases (add_all specs g)) = length (test_cases g) + length specs"
  using arg_cong [OF add_all_ids [of specs g], of length] by simp

lemma reachable_add_all: "reachable g \<Longrightarrow> \<exists>specs. g = add_all specs TestCaseGenerator_init"
proof (induction rule: reachable.induct)
  case reach_init
  show ?case by (metis add_all_Nil)
next
  case (reach_add g d s e a st)
  then obtain xs where "g = add_all xs TestCaseGenerator_init" by blast
  then have "add_test_case d s e a st g = add_all (xs @ [(d, s, e, a, st)]) TestCaseGenerator_init"
    by (simp add: add_all_append add_all_single)
  then show ?case by blast
next
  case (reach_links g ls cs)
  then show ?case by (metis appendsD [OF uniform_links] add_all_append)
next
  case (reach_forms g fs)
  then show ?case by (metis appendsD [OF uniform_forms] add_all_append)
next
  case (reach_structure g s)
  then show ?case by (metis appendsD [OF uniform_structure] add_all_append)
next
  case (reach_accessibility g s)
  then show ?case by (metis appendsD [OF uniform_accessibility] add_all_append)
next
  case (reach_language g la)
  then show ?case by (metis appendsD [OF uniform_language] add_all_append)
qed

text \<open>
  C1. In every run of the synthesizer that starts from a new generator, the state is the
  result of calls of \<open>add_test_case\<close> alone, the counter is one more than the number of
  test cases, and the identifiers are \<open>TC_\<close> followed by 1, 2, 3, ... in this order, each
  number printed in decimal and padded with zeros to three digits.
\<close>

theorem C1_tc_ids_sequential:
  assumes "reachable g"
  shows "(\<exists>specs. g = add_all specs TestCaseGenerator_init)
       \<and> tc_counter g = Suc (length (test_cases g))
       \<and> map TC_ID (test_cases g) = map tc_id [1 ..< Suc (length (test_cases g))]
       \<and> (\<forall>k. tc_id k = ''TC_'' @ replicate (3 - length (str_nat k)) CHR ''0'' @ str_nat k)"
proof -
  obtain specs where g: "g = add_all specs TestCaseGenerator_init"
    using reachable_add_all [OF assms] by blast
  have len: "length (test_cases g) = length specs"
    by (simp add: g add_all_length TestCaseGenerator_init_def)
  have cnt: "tc_counter g = Suc (length specs)"
    by (simp add: g add_all_counter TestCaseGenerator_init_def)
  have ids: "map TC_ID (test_cases g) = map tc_id [1 ..< Suc (length specs)]"
    using add_all_ids [of specs TestCaseGenerator_init]
    by (simp add: g TestCaseGenerator_init_def)
  have fmt: "\<forall>k. tc_id k = ''TC_'' @ replicate (3 - length (str_nat k)) CHR ''0'' @ str_nat k"
    by (simp add: tc_id_def format_03d_def Let_def)
  show ?thesis using g len cnt ids fmt by auto
qed

theorem C1_witness:
  "reachable (fst (generate_form_test_cases [demo_form] TestCaseGenerator_init))
   \<and> map TC_ID (test_cases (fst (generate_form_test_cases [demo_form] TestCaseGenerator_init)))
       = [''TC_001'', ''TC_002'']"
proof -
  let ?g = "fst (generate_form_test_cases [demo_form] TestCaseGenerator_init)"
  have r: "reachable ?g"
    by (rule reach_forms [OF reach_init])
  have l: "length (test_cases ?g) = 2"
    by code_simp
  have t: "map tc_id [1 ..< Suc 2] = [''TC_001'', ''TC_002'']"
    by code_simp
  show ?thesis using r C1_tc_ids_sequential [OF r] l t by simp
qed

section \<open>Properties of the crawler\<close>

lemma get_text_of_history: "snd (get_text_of net h req) = h @ [req]"
  by (simp add: get_text_of_def Let_def)

lemma fetch_first_attempt_ok:
  assumes "get_text_of net h (get_request url (crawler_timeouts c) True) = (Inr t, h1)"
  shows "fetch_website_content net c url h = (Inr t, h1)"
  using assms by (simp add: fetch_website_content_def)

text \<open>A timeout of the first attempt: exactly one more request, with the read timeout
  doubled and the connect timeout unchanged; its outcome is the outcome of the call.\<close>

lemma fetch_timeout_retries_once:
  assumes "get_text_of net h (get_request url (crawler_timeouts c) True) = (Inl e, h1)"
      and "isinstance e Timeout"
  shows "fetch_website_content net c url h =
           get_text_of net h1
             (get_request url (fst (crawler_timeouts c), snd (crawler_timeouts c) * 2) True)"
  using assms by (simp add: fetch_website_content_def)

text \<open>A connection-level failure that is not a timeout: no second request.\<close>

lemma fetch_connection_error_fails_at_once:
  assumes "get_text_of net h (get_request url (crawler_timeouts c) True) = (Inl e, h1)"
      and "isinstance e ConnectionError" and "\<not> isinstance e Timeout"
  shows "fetch_website_content net c url h = (Inl e, h1)"
  using assms by (simp add: fetch_website_content_def)

text \<open>\<open>SSLError\<close> derives from \<open>ConnectionError\<close>, so the clause for \<open>ConnectionError\<close>
  takes every TLS failure and the clause for \<open>SSLError\<close> is never reached.\<close>

lemma ssl_error_is_connection_error:
  "exn_class e = SSLError \<Longrightarrow> isinstance e ConnectionError \<and> \<not> isinstance e Timeout"
  by (simp add: isinstance_def)

lemma fetch_ssl_error_fails_at_once:
  assumes "get_text_of net h (get_request url (crawler_timeouts c) True) = (Inl e, h1)"
      and "exn_class e = SSLError"
  shows "fetch_website_content net c url h = (Inl e, h1)"
  using assms ssl_error_is_connection_error [of e]
  by (simp add: fetch_website_content_def)

lemma fetch_slow_server_example:
  "fetch_website_content slow_net sample_crawler ''http://example.com'' [] =
     (Inr ''<html>slow</html>'',
      [get_request ''http://example.com'' (5, 30) True,
       get_request ''http://example.com'' (5, 60) True])"
  by (simp add: fetch_website_content_def get_text_of_def slow_net_def sample_crawler_def
      get_request_def DEFAULT_CONNECT_TIMEOUT_def DEFAULT_READ_TIMEOUT_def isinstance_def
      raise_for_status_def ok_response_def Let_def)

text \<open>
  C7. On a TLS failure the code makes no second request with verification switched off:
  for a server whose certificate fails verification, and which would answer an
  unverified request, the call raises the \<open>SSLError\<close> of the only request it makes.
\<close>

theorem C7_ssl_error_is_not_retried:
  "fetch_website_content bad_certificate_net sample_crawler ''https://expired.example'' [] =
     (Inl (Exn SSLError ''certificate verify failed''),
      [get_request ''https://expired.example'' (5, 30) True])
   \<and> fst (get_text_of bad_certificate_net
             [get_request ''https://expired.example'' (5, 30) True]
             (get_request ''https://expired.example'' (5, 30) False))
       = Inr ''<html><body>hello</body></html>''"
  by (simp add: fetch_website_content_def get_text_of_def bad_certificate_net_def
      sample_crawler_def get_request_def DEFAULT_CONNECT_TIMEOUT_def DEFAULT_READ_TIMEOUT_def
      isinstance_def raise_for_status_def ok_response_def Let_def)



text \<open>Outside the claim: what is not a failure of the network is not caught. A string
  that \<open>urljoin\<close> cannot resolve, or an exception of the probe that is not a
  \<open>RequestException\<close>, ends the call with that exception.\<close>

lemma check_link_other_exception_propagates:
  assumes "lib_urljoin lib (crawler_base_url c) url = Inr a"
      and "net (h @ [head_request a]) = Inl e" and "\<not> isinstance e RequestException"
  shows "check_link_accessibility lib net c url h = (Inl e, h @ [head_request a])"
  using assms by (simp add: check_link_accessibility_def Let_def)

lemma check_link_unresolvable_string_raises:
  assumes "lib_urljoin lib (crawler_base_url c) url = Inl e"
      and "\<not> isinstance e RequestException"
  shows "check_link_accessibility lib net c url h = (Inl e, h)"
  using assms by (simp add: check_link_accessibility_def)



text \<open>
  C10. The module-level wrapper returns the fetched text unchanged only when it contains
  the substring \<open><html>\<close>; otherwise it returns the text with \<open><html>\<close> put in front, which
  differs from what the server sent.
\<close>

theorem C10_wrapper_prepends_html_marker:
  assumes "WebCrawler_init lib url
             (case ct of Some t \<Rightarrow> t | None \<Rightarrow> DEFAULT_CONNECT_TIMEOUT)
             (case rt of Some t \<Rightarrow> t | None \<Rightarrow> DEFAULT_READ_TIMEOUT) = Inr c"
      and "fetch_website_content net c url h = (Inr text, h')"
  shows "fetch_website_content_wrapper lib net url ct rt h =
           (Inr (if contains ''<html>'' text then text else ''<html>'' @ text), h')
       \<and> (\<not> contains ''<html>'' text \<longrightarrow>
            fst (fetch_website_content_wrapper lib net url ct rt h) \<noteq> Inr text)"
  using assms by (simp add: fetch_website_content_wrapper_def Let_def)

theorem C10_witness:
  "fetch_website_content_wrapper sample_urllib (static_net lang_page) ''http://example.com''
       None None [] =
     (Inr (''<html>'' @ lang_page), [get_request ''http://example.com'' (5, 30) True])
   \<and> fst (fetch_website_content_wrapper sample_urllib (static_net lang_page)
             ''http://example.com'' None None []) \<noteq> Inr lang_page"
proof -
  have i: "WebCrawler_init sample_urllib ''http://example.com''
             (case None of Some t \<Rightarrow> t | None \<Rightarrow> DEFAULT_CONNECT_TIMEOUT)
             (case None of Some t \<Rightarrow> t | None \<Rightarrow> DEFAULT_READ_TIMEOUT) =
           Inr \<lparr>crawler_base_url = ''http://example.com'', crawler_domain = ''example.com'',
                crawler_timeouts = (5, 30)\<rparr>"
    by (simp add: WebCrawler_init_def sample_urllib_def DEFAULT_CONNECT_TIMEOUT_def
        DEFAULT_READ_TIMEOUT_def)
  have f: "fetch_website_content (static_net lang_page)
             \<lparr>crawler_base_url = ''http://example.com'', crawler_domain = ''example.com'',
              crawler_timeouts = (5, 30)\<rparr> ''http://example.com'' [] =
           (Inr lang_page, [get_request ''http://example.com'' (5, 30) True])"
    by (simp add: fetch_website_content_def get_text_of_def static_net_def ok_response_def
        raise_for_status_def get_request_def Let_def)
  have n: "\<not> contains ''<html>'' lang_page"
    unfolding contains_def lang_page_def by code_simp
  show ?thesis
    using C10_wrapper_prepends_html_marker [OF i f] n by simp
qed

section \<open>Properties of the parser\<close>

lemma extract_page_structure_fields:
  assumes "extract_page_structure lib wp = Inr st"
  shows "st_seo_elements st = Some (extract_seo_elements (wp_soup wp))"
    and "st_images st = Some (map image_of (find_all (soup_tags (wp_soup wp)) ''img''))"
    and "st_meta st = Some (extract_meta (wp_soup wp))"
    and "st_scripts st \<noteq> None" and "st_stylesheets st \<noteq> None"
  using assms
  by (auto simp: extract_page_structure_def Let_def split: sum.splits)

lemma has_alt_text_image_of: "has_alt_text img = (img_alt (image_of img) \<noteq> [])"
  by (simp add: has_alt_text_def image_of_def truthy_def get_attr_default_def split: option.splits)

lemma filter_alt_length:
  "length (filter has_alt_text imgs) = length (filter (\<lambda>i. img_alt i \<noteq> []) (map image_of imgs))"
  by (induction imgs) (simp_all add: has_alt_text_image_of)

lemma img_alt_ratio_bounds: "0 \<le> img_alt_ratio sp \<and> img_alt_ratio sp \<le> 1"
proof -
  let ?imgs = "find_all (soup_tags sp) ''img''"
  have "length (filter has_alt_text ?imgs) \<le> length ?imgs"
    by (rule length_filter_le)
  then have "(of_nat (length (filter has_alt_text ?imgs)) :: rat) \<le> of_nat (length ?imgs)"
    by (simp only: of_nat_le_iff)
  then show ?thesis
    by (simp add: img_alt_ratio_def Let_def divide_le_eq_1)
qed

text \<open>
  C5. In the structure of every parsed page the image alt ratio is the number of images
  with a non-empty \<open>alt\<close> divided by the number of images, lies between 0 and 1, and is 1
  for a page without images.
\<close>

theorem C5_img_alt_ratio:
  assumes "extract_page_structure lib wp = Inr st"
  shows "\<exists>seo images. st_seo_elements st = Some seo \<and> st_images st = Some images
           \<and> (images \<noteq> [] \<longrightarrow>
                seo_img_alt_ratio seo =
                  of_nat (length (filter (\<lambda>i. img_alt i \<noteq> []) images)) / of_nat (length images))
           \<and> (images = [] \<longrightarrow> seo_img_alt_ratio seo = 1)
           \<and> 0 \<le> seo_img_alt_ratio seo \<and> seo_img_alt_ratio seo \<le> 1"
proof -
  let ?imgs = "find_all (soup_tags (wp_soup wp)) ''img''"
  let ?seo = "extract_seo_elements (wp_soup wp)"
  have r: "seo_img_alt_ratio ?seo = img_alt_ratio (wp_soup wp)"
    by (simp add: extract_seo_elements_def)
  have a: "map image_of ?imgs \<noteq> [] \<longrightarrow>
             seo_img_alt_ratio ?seo =
               of_nat (length (filter (\<lambda>i. img_alt i \<noteq> []) (map image_of ?imgs)))
                 / of_nat (length (map image_of ?imgs))"
    by (simp add: r img_alt_ratio_def Let_def filter_alt_length)
  have b: "map image_of ?imgs = [] \<longrightarrow> seo_img_alt_ratio ?seo = 1"
    by (simp add: r img_alt_ratio_def Let_def)
  have c: "0 \<le> seo_img_alt_ratio ?seo \<and> seo_img_alt_ratio ?seo \<le> 1"
    using img_alt_ratio_bounds [of "wp_soup wp"] by (simp add: r)
  show ?thesis
    using extract_page_structure_fields(1,2) [OF assms] a b c by blast
qed

theorem C5_witness:
  "(case extract_page_structure sample_urllib sample_parser of
      Inl e \<Rightarrow> False
    | Inr st \<Rightarrow> map_option seo_img_alt_ratio (st_seo_elements st) = Some (1 / 2)
             \<and> map_option length (st_images st) = Some 2)"
proof -
  obtain st where st: "extract_page_structure sample_urllib sample_parser = Inr st"
    by (simp add: extract_page_structure_def extract_security_elements_def Let_def
        sample_parser_def sample_soup_def sample_urllib_def anchors_with_href_def
        soup_tags_def find_all_def has_attr_def get_attr_def is_external_anchor_def
        get_attr_default_def startswith_def)
  obtain seo images where s: "st_seo_elements st = Some seo" "st_images st = Some images"
      "images \<noteq> [] \<longrightarrow> seo_img_alt_ratio seo =
         of_nat (length (filter (\<lambda>i. img_alt i \<noteq> []) images)) / of_nat (length images)"
    using C5_img_alt_ratio [OF st] by blast
  have i: "images = map image_of (find_all (soup_tags sample_soup) ''img'')"
    using extract_page_structure_fields(2) [OF st] s(2) by (simp add: sample_parser_def)
  have v: "map image_of (find_all (soup_tags sample_soup) ''img'') =
           [\<lparr>img_src = Some ''a.png'', img_alt = ''logo'', img_title = [], img_width = [],
              img_height = []\<rparr>,
            \<lparr>img_src = Some ''b.png'', img_alt = [], img_title = [], img_width = [],
              img_height = []\<rparr>]"
    by (simp add: sample_soup_def soup_tags_def find_all_def image_of_def get_attr_def
        get_attr_default_def)
  show ?thesis using st s i v by simp
qed












subsection \<open>The test cases of one description\<close>

lemma emits_done_ok: "emits d [] done_ok"
  by (simp add: emits_def done_ok_def)

lemma emits_call_add: "emits d (if d' = d then [st] else []) (call_add d' s e a st)"
  by (simp add: emits_def call_add_def add_test_case_def cases_named_def)

lemma emits_and_then:
  assumes "emits d xs p" and "emits d ys q"
  shows "emits d (xs @ ys) (and_then p q)"
  unfolding emits_def
proof
  fix g
  obtain g' where p: "p g = (g', None)"
    using assms(1) unfolding emits_def by (metis prod.collapse)
  have 1: "map Status (cases_named d g') = map Status (cases_named d g) @ xs"
    using assms(1) p unfolding emits_def by (metis fst_conv)
  have 2: "snd (q g') = None
           \<and> map Status (cases_named d (fst (q g'))) = map Status (cases_named d g') @ ys"
    using assms(2) unfolding emits_def by blast
  show "snd (and_then p q g) = None
        \<and> map Status (cases_named d (fst (and_then p q g))) = map Status (cases_named d g) @ (xs @ ys)"
    using p 1 2 by (simp add: and_then_def)
qed

lemma emits_for_each:
  assumes "\<And>x. emits d (out x) (f x)"
  shows "emits d (concat (map out xs)) (for_each f xs)"
proof (induction xs)
  case Nil
  have "for_each f [] = done_ok"
    by (rule ext) (simp add: done_ok_def)
  then show ?case by (simp add: emits_done_ok)
next
  case (Cons x xs)
  have "for_each f (x # xs) = and_then (f x) (for_each f xs)"
    by (rule ext) simp
  then show ?case using emits_and_then [OF assms [of x] Cons] by simp
qed

lemma emits_run_if: "emits d xs p \<Longrightarrow> emits d (if b then xs else []) (run_if b p)"
  by (simp add: run_if_def emits_done_ok)

lemma emits_case_option:
  assumes "\<And>x. emits d (out x) (q x)"
  shows "emits d (case v of None \<Rightarrow> [] | Some x \<Rightarrow> out x) (case v of None \<Rightarrow> done_ok | Some x \<Rightarrow> q x)"
  using assms by (cases v) (simp_all add: emits_done_ok)

lemma emits_eq: "emits d xs p \<Longrightarrow> xs = ys \<Longrightarrow> emits d ys p"
  by simp

lemma concat_map_Nil: "concat (map (\<lambda>x. []) xs) = []"
  by (induction xs) simp_all

lemmas emits_intros =
  emits_done_ok emits_call_add emits_and_then emits_for_each emits_run_if emits_case_option

lemma structure_emits_responsive:
  "emits ''Verify responsive design meta tag''
     (let m = (case st_meta s of None \<Rightarrow> [] | Some m \<Rightarrow> m) in
      if ''viewport'' \<in> fst ` set m
      then [if contains ''width=device-width'' (get_or_empty m ''viewport'') then ''Pass'' else ''Fail'']
      else [])
     (generate_structure_test_cases s)"
  unfolding generate_structure_test_cases_def meta_test_case_def generate_table_test_cases_def
    table_test_case_def generate_interactive_element_test_cases_def generate_seo_test_cases_def
    generate_security_test_cases_def generate_social_media_test_cases_def
    generate_resource_test_cases_def Let_def
  by (rule emits_eq, (rule emits_intros)+) (simp add: concat_map_Nil split: option.splits)

lemma structure_emits_scripts:
  "emits ''Verify script loading''
     (case st_scripts s of
        None \<Rightarrow> [] | Some sc \<Rightarrow> [if res_total sc > 0 then ''Pass'' else ''Fail''])
     (generate_structure_test_cases s)"
  unfolding generate_structure_test_cases_def meta_test_case_def generate_table_test_cases_def
    table_test_case_def generate_interactive_element_test_cases_def generate_seo_test_cases_def
    generate_security_test_cases_def generate_social_media_test_cases_def
    generate_resource_test_cases_def Let_def
  by (rule emits_eq, (rule emits_intros)+) (simp add: concat_map_Nil split: option.splits)

lemma structure_emits_stylesheets:
  "emits ''Verify stylesheet loading''
     (case st_stylesheets s of
        None \<Rightarrow> [] | Some sc \<Rightarrow> [if res_total sc > 0 then ''Pass'' else ''Fail''])
     (generate_structure_test_cases s)"
  unfolding generate_structure_test_cases_def meta_test_case_def generate_table_test_cases_def
    table_test_case_def generate_interactive_element_test_cases_def generate_seo_test_cases_def
    generate_security_test_cases_def generate_social_media_test_cases_def
    generate_resource_test_cases_def Let_def
  by (rule emits_eq, (rule emits_intros)+) (simp add: concat_map_Nil split: option.splits)

lemma extract_meta_viewport:
  "''viewport'' \<in> fst ` set (extract_meta sp)"
  "get_or_empty (extract_meta sp) ''viewport'' =
     (case meta_content sp ''viewport'' of None \<Rightarrow> [] | Some c \<Rightarrow> c)"
  by (simp_all add: extract_meta_def get_or_empty_def split: option.splits)

lemma emitsD:
  "emits d xs p \<Longrightarrow>
     snd (p g) = None \<and> map Status (cases_named d (fst (p g))) = map Status (cases_named d g) @ xs"
  by (simp add: emits_def)

lemma sample_structure_exists: "\<exists>st. extract_page_structure sample_urllib sample_parser = Inr st"
  by (simp add: extract_page_structure_def extract_security_elements_def Let_def
      sample_parser_def sample_soup_def sample_urllib_def anchors_with_href_def
      soup_tags_def find_all_def has_attr_def get_attr_def is_external_anchor_def
      get_attr_default_def startswith_def)

lemma viewport_structure_exists:
  "\<exists>st. extract_page_structure sample_urllib viewport_parser = Inr st"
  by (simp add: extract_page_structure_def extract_security_elements_def Let_def
      viewport_parser_def viewport_soup_def sample_urllib_def anchors_with_href_def
      soup_tags_def find_all_def has_attr_def get_attr_def is_external_anchor_def
      get_attr_default_def startswith_def)

text \<open>
  C2, as the code has it. \<open>generate_structure_test_cases\<close> never raises. It adds the
  responsiveness test case exactly when the meta mapping has the key \<open>viewport\<close>, with
  status Pass when the value contains \<open>width=device-width\<close> (a value \<open>None\<close> counting as
  the empty string) and Fail otherwise; the script and stylesheet test cases are added
  whenever the structure has these entries, whatever the meta mapping holds. In every
  structure that \<open>extract_page_structure\<close> returns the key \<open>viewport\<close> is present, with the
  content of the page's viewport \<open>meta\<close> tag or \<open>None\<close> without one, and so are the script
  and stylesheet entries.
\<close>

theorem C2_viewport_test_case:
  "(let m = (case st_meta s of None \<Rightarrow> [] | Some m \<Rightarrow> m);
        r = generate_structure_test_cases s g in
    snd r = None
    \<and> map Status (cases_named ''Verify responsive design meta tag'' (fst r)) =
        map Status (cases_named ''Verify responsive design meta tag'' g) @
        (if ''viewport'' \<in> fst ` set m
         then [if contains ''width=device-width'' (get_or_empty m ''viewport'')
               then ''Pass'' else ''Fail'']
         else [])
    \<and> map Status (cases_named ''Verify script loading'' (fst r)) =
        map Status (cases_named ''Verify script loading'' g) @
        (case st_scripts s of
           None \<Rightarrow> [] | Some sc \<Rightarrow> [if res_total sc > 0 then ''Pass'' else ''Fail''])
    \<and> map Status (cases_named ''Verify stylesheet loading'' (fst r)) =
        map Status (cases_named ''Verify stylesheet loading'' g) @
        (case st_stylesheets s of
           None \<Rightarrow> [] | Some sc \<Rightarrow> [if res_total sc > 0 then ''Pass'' else ''Fail''])
    \<and> (\<forall>lib wp. extract_page_structure lib wp = Inr s \<longrightarrow>
          ''viewport'' \<in> fst ` set m
        \<and> get_or_empty m ''viewport'' =
            (case meta_content (wp_soup wp) ''viewport'' of None \<Rightarrow> [] | Some c \<Rightarrow> c)
        \<and> st_scripts s \<noteq> None \<and> st_stylesheets s \<noteq> None))"
proof -
  have p: "\<forall>lib wp. extract_page_structure lib wp = Inr s \<longrightarrow>
          ''viewport'' \<in> fst ` set (case st_meta s of None \<Rightarrow> [] | Some m \<Rightarrow> m)
        \<and> get_or_empty (case st_meta s of None \<Rightarrow> [] | Some m \<Rightarrow> m) ''viewport'' =
            (case meta_content (wp_soup wp) ''viewport'' of None \<Rightarrow> [] | Some c \<Rightarrow> c)
        \<and> st_scripts s \<noteq> None \<and> st_stylesheets s \<noteq> None"
  proof (intro allI impI)
    fix lib wp assume e: "extract_page_structure lib wp = Inr s"
    show "''viewport'' \<in> fst ` set (case st_meta s of None \<Rightarrow> [] | Some m \<Rightarrow> m)
        \<and> get_or_empty (case st_meta s of None \<Rightarrow> [] | Some m \<Rightarrow> m) ''viewport'' =
            (case meta_content (wp_soup wp) ''viewport'' of None \<Rightarrow> [] | Some c \<Rightarrow> c)
        \<and> st_scripts s \<noteq> None \<and> st_stylesheets s \<noteq> None"
      using extract_page_structure_fields(3,4,5) [OF e] extract_meta_viewport [of "wp_soup wp"]
      by simp
  qed
  show ?thesis
    using emitsD [OF structure_emits_responsive, of s g]
      emitsD [OF structure_emits_scripts, of s g]
      emitsD [OF structure_emits_stylesheets, of s g] p
    by (simp add: Let_def)
qed

theorem C2_witness:
  "(case extract_page_structure sample_urllib viewport_parser of
      Inl e \<Rightarrow> False
    | Inr st \<Rightarrow>
        map Status (cases_named ''Verify responsive design meta tag''
          (fst (generate_structure_test_cases st TestCaseGenerator_init))) = [''Pass''])"
proof -
  obtain st where st: "extract_page_structure sample_urllib viewport_parser = Inr st"
    using viewport_structure_exists by blast
  let ?m = "case st_meta st of None \<Rightarrow> [] | Some m \<Rightarrow> m"
  have t: "map Status (cases_named ''Verify responsive design meta tag''
             (fst (generate_structure_test_cases st TestCaseGenerator_init))) =
           map Status (cases_named ''Verify responsive design meta tag'' TestCaseGenerator_init) @
           (if ''viewport'' \<in> fst ` set ?m
            then [if contains ''width=device-width'' (get_or_empty ?m ''viewport'')
                  then ''Pass'' else ''Fail'']
            else [])"
    and k: "''viewport'' \<in> fst ` set ?m"
    and v: "get_or_empty ?m ''viewport'' =
              (case meta_content (wp_soup viewport_parser) ''viewport'' of
                 None \<Rightarrow> [] | Some c \<Rightarrow> c)"
    using C2_viewport_test_case [of st TestCaseGenerator_init] st
    by (simp_all add: Let_def)
  have c: "meta_content (wp_soup viewport_parser) ''viewport'' =
             Some ''width=device-width, initial-scale=1''"
    by (simp add: viewport_parser_def viewport_soup_def meta_content_def find_with_def
        first_of_def soup_tags_def find_all_def get_attr_def get_attr_default_def)
  have w: "contains ''width=device-width'' ''width=device-width, initial-scale=1''"
    unfolding contains_def by code_simp
  have i: "cases_named ''Verify responsive design meta tag'' TestCaseGenerator_init = []"
    by (simp add: cases_named_def TestCaseGenerator_init_def)
  show ?thesis using st t k v c w i by simp
qed

text \<open>The claim as stated fails: for a page without any viewport \<open>meta\<close> tag the parser
  still enters the key, with the value \<open>None\<close>, and the responsiveness test case is
  generated, with status Fail.\<close>

theorem C2_counterexample:
  "(case extract_page_structure sample_urllib sample_parser of
      Inl e \<Rightarrow> False
    | Inr st \<Rightarrow>
        map Status (cases_named ''Verify responsive design meta tag''
          (fst (generate_structure_test_cases st TestCaseGenerator_init))) = [''Fail''])
   \<and> find_with sample_soup ''meta'' ''name'' ''viewport'' = None
   \<and> find_all (soup_tags sample_soup) ''meta'' = []"
proof -
  obtain st where st: "extract_page_structure sample_urllib sample_parser = Inr st"
    using sample_structure_exists by blast
  have m: "st_meta st = Some (extract_meta sample_soup)"
    using extract_page_structure_fields(3) [OF st] by (simp add: sample_parser_def)
  have n: "find_all (soup_tags sample_soup) ''meta'' = []"
    by (simp add: sample_soup_def soup_tags_def find_all_def)
  then have f: "find_with sample_soup ''meta'' ''name'' ''viewport'' = None"
    by (simp add: find_with_def first_of_def)
  then have c: "get_or_empty (extract_meta sample_soup) ''viewport'' = []"
    by (simp add: extract_meta_viewport(2) meta_content_def)
  have i: "cases_named ''Verify responsive design meta tag'' TestCaseGenerator_init = []"
    by (simp add: cases_named_def TestCaseGenerator_init_def)
  have e: "\<not> contains ''width=device-width'' []"
    by (simp add: contains_def)
  have "map Status (cases_named ''Verify responsive design meta tag''
          (fst (generate_structure_test_cases st TestCaseGenerator_init))) = [''Fail'']"
    using emitsD [OF structure_emits_responsive, of st TestCaseGenerator_init]
      m c i e extract_meta_viewport(1) [of sample_soup]
    by (simp add: Let_def)
  then show ?thesis using st n f by simp
qed

section \<open>Properties of the language analyzer\<close>

lemma length_strip_le: "length (strip s) \<le> length s"
proof -
  have "length (strip s) \<le> length (dropWhile is_space s)"
    unfolding strip_def using length_dropWhile_le [of is_space "rev (dropWhile is_space s)"]
    by simp
  also have "\<dots> \<le> length s"
    by (rule length_dropWhile_le)
  finally show ?thesis .
qed

lemma analyze_language_short_circuit:
  assumes "length (snd (extract_text_content (env_parse env html))) < 10"
  shows "analyze_language env (Some html) url = Inr (short_circuit_result env html)"
proof -
  have "length (strip (snd (extract_text_content (env_parse env html)))) < 10"
    using assms length_strip_le [of "snd (extract_text_content (env_parse env html))"] by simp
  then show ?thesis
    by (simp add: analyze_language_def short_circuit_result_def declared_only_def Let_def)
qed

text \<open>
  C6. For every HTML text whose extracted and whitespace-normalized text has fewer than
  ten characters, \<open>analyze_language\<close> returns a result and does not raise: the error is
  set, the declared language is carried over with its code alone (or is \<open>None\<close> without a
  \<open>lang\<close> attribute), no language is detected, the list of other languages is empty, the
  direction is \<open>ltr\<close>, and the language elements and the charset are computed.
\<close>

theorem C6_short_text_partial_result:
  assumes "length (snd (extract_text_content (env_parse env html))) < 10"
  shows "\<exists>la declared_lang.
           analyze_language env (Some html) url = Inr la
         \<and> declared_lang =
             (case first_of (find_all (soup_tags (env_parse env html)) ''html'') of
                None \<Rightarrow> [] | Some t \<Rightarrow> get_attr_default t ''lang'' [])
         \<and> la_error la = Some ''Insufficient text content for language analysis''
         \<and> la_declared_language la =
             Some (if declared_lang \<noteq> []
                   then Some \<lparr>decl_code = declared_lang, decl_name = None, decl_native_name = None\<rparr>
                   else None)
         \<and> la_detected_language la = Some None
         \<and> la_other_languages la = Some []
         \<and> la_direction la = Some ''ltr''
         \<and> la_language_elements la =
             Some (analyze_language_elements (fst (extract_text_content (env_parse env html))))
         \<and> la_charset la = Some (detect_charset env html)
         \<and> la_locale_info la = None"
  using analyze_language_short_circuit [OF assms, of url]
  by (simp add: short_circuit_result_def Let_def)

lemma short_page_text: "extract_text_content (env_parse short_env lang_page) = (short_soup, ''Hi'')"
  by (simp add: short_env_def short_soup_def extract_text_content_def decompose_all_def
      stripped_strings_def strip_def is_space_def collapse_ws_def Let_def)

theorem C6_witness:
  "analyze_language short_env (Some lang_page) ''http://example.com'' =
     Inr \<lparr>la_error = Some ''Insufficient text content for language analysis'',
          la_declared_language =
            Some (Some \<lparr>decl_code = ''en'', decl_name = None, decl_native_name = None\<rparr>),
          la_detected_language = Some None,
          la_other_languages = Some [],
          la_direction = Some ''ltr'',
          la_language_elements =
            Some \<lparr>lang_attributes = [(''html'', ''en'')], dir_attributes = [],
                  multilingual = \<lparr>alternate_links = [], content_language = None\<rparr>,
                  translation_links = []\<rparr>,
          la_charset = Some (Some ''ascii''),
          la_locale_info = None\<rparr>"
proof -
  have h: "length (snd (extract_text_content (env_parse short_env lang_page))) < 10"
    by (simp add: short_page_text)
  obtain la where la: "analyze_language short_env (Some lang_page) ''http://example.com'' = Inr la"
      and f: "la_error la = Some ''Insufficient text content for language analysis''"
        "la_declared_language la =
           Some (if (case first_of (find_all (soup_tags (env_parse short_env lang_page)) ''html'') of
                       None \<Rightarrow> [] | Some t \<Rightarrow> get_attr_default t ''lang'' []) \<noteq> []
                 then Some \<lparr>decl_code =
                              (case first_of (find_all (soup_tags (env_parse short_env lang_page)) ''html'') of
                                 None \<Rightarrow> [] | Some t \<Rightarrow> get_attr_default t ''lang'' []),
                            decl_name = None, decl_native_name = None\<rparr>
                 else None)"
        "la_detected_language la = Some None"
        "la_other_languages la = Some []"
        "la_direction la = Some ''ltr''"
        "la_language_elements la =
           Some (analyze_language_elements (fst (extract_text_content (env_parse short_env lang_page))))"
        "la_charset la = Some (detect_charset short_env lang_page)"
        "la_locale_info la = None"
    using C6_short_text_partial_result [OF h, of "''http://example.com''"] by blast
  have d: "(case first_of (find_all (soup_tags (env_parse short_env lang_page)) ''html'') of
              None \<Rightarrow> [] | Some t \<Rightarrow> get_attr_default t ''lang'' []) = ''en''"
    by (simp add: short_env_def short_soup_def soup_tags_def find_all_def first_of_def
        get_attr_default_def get_attr_def)
  have e: "analyze_language_elements (fst (extract_text_content (env_parse short_env lang_page))) =
             \<lparr>lang_attributes = [(''html'', ''en'')], dir_attributes = [],
              multilingual = \<lparr>alternate_links = [], content_language = None\<rparr>,
              translation_links = []\<rparr>"
    by (simp add: short_page_text short_soup_def analyze_language_elements_def
        find_multilingual_meta_def find_lang_attributes_def find_dir_attributes_def
        find_translation_links_def soup_tags_def find_all_def has_attr_def get_attr_def
        get_attr_default_def find_with_def first_of_def Let_def)
  have c: "detect_charset short_env lang_page = Some ''ascii''"
    by (simp add: detect_charset_def short_env_def)
  have "la = \<lparr>la_error = Some ''Insufficient text content for language analysis'',
          la_declared_language =
            Some (Some \<lparr>decl_code = ''en'', decl_name = None, decl_native_name = None\<rparr>),
          la_detected_language = Some None,
          la_other_languages = Some [],
          la_direction = Some ''ltr'',
          la_language_elements =
            Some \<lparr>lang_attributes = [(''html'', ''en'')], dir_attributes = [],
                  multilingual = \<lparr>alternate_links = [], content_language = None\<rparr>,
                  translation_links = []\<rparr>,
          la_charset = Some (Some ''ascii''),
          la_locale_info = None\<rparr>"
    using f d e c by (cases la) simp
  then show ?thesis using la by simp
qed

section \<open>Properties of the route and of the wrapper\<close>

subsection \<open>Methods that never raise\<close>

lemma never_raises_done_ok: "never_raises done_ok"
  by (simp add: never_raises_def done_ok_def)

lemma never_raises_call_add: "never_raises (call_add d s e a st)"
  by (simp add: never_raises_def call_add_def)

lemma never_raises_and_then:
  assumes "never_raises p" and "never_raises q"
  shows "never_raises (and_then p q)"
proof -
  have "snd (and_then p q g) = None" for g
    using assms(1) [unfolded never_raises_def, rule_format, of g]
      assms(2) [unfolded never_raises_def, rule_format, of "fst (p g)"]
    by (cases "p g") (simp add: and_then_def)
  then show ?thesis by (simp add: never_raises_def)
qed

lemma never_raises_for_each:
  assumes "\<And>x. never_raises (f x)"
  shows "never_raises (for_each f xs)"
proof (induction xs)
  case Nil
  show ?case by (simp add: never_raises_def)
next
  case (Cons x xs)
  have "for_each f (x # xs) = and_then (f x) (for_each f xs)"
    by (rule ext) simp
  then show ?case using never_raises_and_then [OF assms Cons] by simp
qed

lemma never_raises_run_if: "never_raises p \<Longrightarrow> never_raises (run_if b p)"
  by (simp add: run_if_def never_raises_done_ok)

lemma never_raises_try_except_pass: "never_raises (try_except_pass p)"
  by (simp add: never_raises_def try_except_pass_def)

lemma never_raises_case_option:
  assumes "never_raises p" and "\<And>x. never_raises (q x)"
  shows "never_raises (case v of None \<Rightarrow> p | Some x \<Rightarrow> q x)"
  using assms by (cases v) simp_all

lemmas never_raises_intros =
  never_raises_done_ok never_raises_call_add never_raises_and_then never_raises_for_each
  never_raises_run_if never_raises_try_except_pass never_raises_case_option

lemma links_never_raise: "never_raises (generate_link_test_cases ls cs)"
  unfolding generate_link_test_cases_def link_test_cases_def Let_def
  by (intro never_raises_intros)

lemma forms_never_raise: "never_raises (generate_form_test_cases fs)"
  unfolding generate_form_test_cases_def form_test_cases_def Let_def
  by (intro never_raises_intros)

lemma resources_never_raise: "never_raises (generate_resource_test_cases s)"
  unfolding generate_resource_test_cases_def
  by (intro never_raises_intros)

lemma structure_never_raises: "never_raises (generate_structure_test_cases s)"
  unfolding generate_structure_test_cases_def meta_test_case_def generate_table_test_cases_def
    table_test_case_def generate_interactive_element_test_cases_def generate_seo_test_cases_def
    generate_security_test_cases_def generate_social_media_test_cases_def Let_def
  by (intro never_raises_intros resources_never_raise)

text \<open>The accessibility method subscripts \<open>images\<close> and \<open>headings\<close>: it returns when the
  structure has both keys, as every structure of the parser has.\<close>

lemma accessibility_never_raises:
  assumes "st_images s \<noteq> None" and "st_headings s \<noteq> None"
  shows "never_raises (generate_accessibility_test_cases s)"
proof -
  obtain images headings where i: "st_images s = Some images" and h: "st_headings s = Some headings"
    using assms by auto
  show ?thesis
    unfolding generate_accessibility_test_cases_def Let_def i h subscript_def eval_then_def
    by (simp only: option.case sum.case) (intro never_raises_intros)
qed

subsection \<open>A partial language analysis in the language method\<close>

text \<open>
  The language method subscripts the dictionary of the declared language for \<open>name\<close>, the
  analysis for \<open>detected_language\<close>, and so on. On each of the two partial results of
  \<open>analyze_language\<close> it raises before its first call of \<open>add_test_case\<close>.
\<close>

lemma language_raises_on_missing_name:
  assumes "la_declared_language la = Some (Some decl)" and "decl_code decl \<noteq> []"
      and "decl_name decl = None" and "la_detected_language la = Some det"
  shows "generate_language_test_cases la g = (g, Some (Exn KeyError ([CHR 0x27] @ ''name'' @ [CHR 0x27])))"
  using assms
  by (simp add: generate_language_test_cases_def eval_then_def subscript_def not_none_def
      raise_exn_def)

lemma language_raises_on_no_declaration:
  assumes "la_declared_language la = Some None" and "la_detected_language la = Some det"
  shows "generate_language_test_cases la g =
           (g, Some (Exn TypeError ([CHR 0x27] @ ''NoneType'' @ [CHR 0x27] @ '' object is not subscriptable'')))"
  using assms
  by (simp add: generate_language_test_cases_def eval_then_def subscript_def not_none_def
      raise_exn_def)

lemma language_raises_on_missing_detected:
  assumes "la_declared_language la = Some d" and "la_detected_language la = None"
  shows "generate_language_test_cases la g =
           (g, Some (Exn KeyError ([CHR 0x27] @ ''detected_language'' @ [CHR 0x27])))"
  using assms
  by (simp add: generate_language_test_cases_def eval_then_def subscript_def not_none_def
      raise_exn_def)

lemma partial_result_shapes:
  assumes "analyze_language env html_content url = Inr la" and "la_error la \<noteq> None"
  shows "(\<exists>decl. la_declared_language la = Some (Some decl) \<and> decl_code decl \<noteq> []
                 \<and> decl_name decl = None \<and> la_detected_language la = Some None)
       \<or> (la_declared_language la = Some None \<and> la_detected_language la = Some None)
       \<or> (\<exists>d. la_declared_language la = Some d \<and> la_detected_language la = None)"
proof (cases html_content)
  case None
  then show ?thesis using assms(1) by (simp add: analyze_language_def)
next
  case (Some html)
  show ?thesis
    using assms unfolding analyze_language_def Some Let_def declared_only_def
    by (auto split: if_splits sum.splits prod.splits)
qed

lemma partial_result_raises:
  assumes "analyze_language env html_content url = Inr la" and "la_error la \<noteq> None"
  shows "\<exists>e. \<forall>g. generate_language_test_cases la g = (g, Some e)"
  using partial_result_shapes [OF assms]
  by (metis language_raises_on_missing_name language_raises_on_no_declaration
      language_raises_on_missing_detected)

subsection \<open>The route: the exception leaves \<open>analyze\<close> through the outer handler\<close>

lemma and_then_raises:
  assumes "\<forall>g. snd (q g) \<noteq> None"
  shows "snd (and_then p q g) \<noteq> None"
  using assms by (simp add: and_then_def split: prod.splits option.splits)

lemma run_synthesizer_raises:
  assumes "\<forall>g. generate_language_test_cases la g = (g, Some e)"
  shows "snd (run_synthesizer links link_checks forms s la g) \<noteq> None"
proof -
  have l: "\<forall>g. snd (generate_language_test_cases la g) \<noteq> None"
    using assms by simp
  show ?thesis
    unfolding run_synthesizer_def
    by (intro and_then_raises allI l)
qed

lemma analyze_generate_aborts:
  assumes "\<forall>g. generate_language_test_cases la g = (g, Some e)"
  shows "\<exists>msg. analyze_generate timestamp links link_checks forms s la = JsonError msg 500"
proof -
  obtain gen r where r: "run_synthesizer links link_checks forms s la TestCaseGenerator_init = (gen, r)"
    by (cases "run_synthesizer links link_checks forms s la TestCaseGenerator_init") auto
  have "r \<noteq> None"
    using run_synthesizer_raises [OF assms, of links link_checks forms s TestCaseGenerator_init] r
    by simp
  then obtain e' where "r = Some e'" by auto
  then show ?thesis
    by (simp add: analyze_generate_def r outer_error_def)
qed

lemma and_then_never_raises:
  assumes "never_raises p"
  shows "snd (and_then p q g) = snd (q (fst (p g)))"
  using assms [unfolded never_raises_def, rule_format, of g]
  by (cases "p g") (simp add: and_then_def)

text \<open>With the structure of a parsed page the four methods before return, and the
  response carries the message of the language method's exception.\<close>

lemma analyze_generate_message:
  assumes "\<forall>g. generate_language_test_cases la g = (g, Some e)"
      and "st_images s \<noteq> None" and "st_headings s \<noteq> None"
  shows "analyze_generate timestamp links link_checks forms s la = outer_error e"
proof -
  have "snd (run_synthesizer links link_checks forms s la TestCaseGenerator_init) = Some e"
    unfolding run_synthesizer_def
    by (simp add: and_then_never_raises links_never_raise forms_never_raise
        structure_never_raises accessibility_never_raises [OF assms(2,3)] assms(1))
  then show ?thesis
    by (cases "run_synthesizer links link_checks forms s la TestCaseGenerator_init")
      (simp add: analyze_generate_def)
qed

subsection \<open>The wrapper: the exception is caught\<close>

lemma wrapper_skips_language:
  assumes "\<forall>g. generate_language_test_cases la g = (g, Some e)"
  shows "generate_test_cases_method (pd\<lparr>pd_language := Some la\<rparr>) =
         generate_test_cases_method (pd\<lparr>pd_language := None\<rparr>)"
proof -
  have "try_except_pass (generate_language_test_cases la) = done_ok"
    by (rule ext) (simp add: try_except_pass_def done_ok_def assms)
  then show ?thesis
    by (simp add: generate_test_cases_method_def run_if_def)
qed

lemma short_page_analysis:
  "analyze_language short_env (Some lang_page) url = Inr (short_circuit_result short_env lang_page)"
  by (rule analyze_language_short_circuit) (simp add: short_page_text)

text \<open>
  C3. Whenever \<open>analyze_language\<close> returns a partial result (one with \<open>error\<close> set), the
  language method raises on it before adding a test case. The wrapper
  \<open>generate_test_cases\<close> catches the exception and returns what it returns without a
  language analysis. The route \<open>analyze\<close> calls the method outside any handler of its own:
  whatever the links, forms and structure are, the generation step ends in the outer
  handler, with status 500 and no test cases.
\<close>

theorem C3_partial_language_analysis_aborts_route:
  assumes "analyze_language env html_content url = Inr la" and "la_error la \<noteq> None"
  shows "(\<exists>e. \<forall>g. generate_language_test_cases la g = (g, Some e))
       \<and> (\<exists>msg. analyze_generate timestamp links link_checks forms s la = JsonError msg 500)
       \<and> generate_test_cases (pd\<lparr>pd_language := Some la\<rparr>) =
           generate_test_cases (pd\<lparr>pd_language := None\<rparr>)"
proof -
  obtain e where e: "\<forall>g. generate_language_test_cases la g = (g, Some e)"
    using partial_result_raises [OF assms] by blast
  have w: "generate_test_cases (pd\<lparr>pd_language := Some la\<rparr>) =
             generate_test_cases (pd\<lparr>pd_language := None\<rparr>)"
    unfolding generate_test_cases_def wrapper_skips_language [OF e] ..
  show ?thesis
    using e analyze_generate_aborts [OF e] w by blast
qed

text \<open>The page \<open><html lang=en><body><h1>Hi</h1></body></html>\<close>, served with status 200:
  the wrapper returns the seventeen test cases of the structure and of accessibility,
  the route answers 500.\<close>

theorem C3_witness:
  "(case parse_html (env_parse short_env) sample_urllib (Some lang_page) ''http://example.com'' of
      Inl e \<Rightarrow> False
    | Inr pd \<Rightarrow>
        (case analyze_language short_env (Some lang_page) ''http://example.com'' of
           Inl e \<Rightarrow> False
         | Inr la \<Rightarrow>
             la_error la = Some ''Insufficient text content for language analysis''
           \<and> (case generate_test_cases (pd\<lparr>pd_language := Some la\<rparr>) of
                Inl e \<Rightarrow> False
              | Inr tcs \<Rightarrow>
                  map Test_Case_Description tcs =
                    [''Verify page title'', ''Verify meta description'', ''Verify meta keywords'',
                     ''Verify meta viewport'', ''Verify meta charset'', ''Verify meta robots'',
                     ''Verify responsive design meta tag'', ''Verify script loading'',
                     ''Verify stylesheet loading'', ''Verify form elements presence'',
                     ''Verify SEO basics'', ''Verify security measures'',
                     ''Verify social media metadata'', ''Verify image alt texts'',
                     ''Verify heading hierarchy'', ''Check for multiple H1 headings'',
                     ''Verify ARIA landmarks''])))
   \<and> analyze sample_urllib short_env (static_net lang_page) (\<lambda>u. True) ''20260101_000000''
         (Some ''http://example.com'') =
       JsonError (''An error occurred while analyzing the website: '' @ [CHR 0x27] @ ''name'' @ [CHR 0x27])
         500"
proof -
  let ?la = "short_circuit_result short_env lang_page"
  let ?parsed = "parse_html (env_parse short_env) sample_urllib (Some lang_page) ''http://example.com''"
  have la: "analyze_language short_env (Some lang_page) ''http://example.com'' = Inr ?la"
    by (rule short_page_analysis)
  have err: "la_error ?la = Some ''Insufficient text content for language analysis''"
    by (simp add: short_circuit_result_def Let_def)
  have "\<not> isl ?parsed"
    by code_simp
  then obtain pd where pd: "?parsed = Inr pd"
    by (cases ?parsed) simp_all
  have pe: "pd = projr ?parsed"
    by (simp add: pd)
  have w: "generate_test_cases (pd\<lparr>pd_language := Some ?la\<rparr>) =
           generate_test_cases (pd\<lparr>pd_language := None\<rparr>)"
    using C3_partial_language_analysis_aborts_route [OF la, where pd = pd] err by simp
  have "(case generate_test_cases ((projr ?parsed)\<lparr>pd_language := None\<rparr>) of
                Inl e \<Rightarrow> False
              | Inr tcs \<Rightarrow>
                  map Test_Case_Description tcs =
                    [''Verify page title'', ''Verify meta description'', ''Verify meta keywords'',
                     ''Verify meta viewport'', ''Verify meta charset'', ''Verify meta robots'',
                     ''Verify responsive design meta tag'', ''Verify script loading'',
                     ''Verify stylesheet loading'', ''Verify form elements presence'',
                     ''Verify SEO basics'', ''Verify security measures'',
                     ''Verify social media metadata'', ''Verify image alt texts'',
                     ''Verify heading hierarchy'', ''Check for multiple H1 headings'',
                     ''Verify ARIA landmarks''])"
    by code_simp
  then have "(case generate_test_cases (pd\<lparr>pd_language := None\<rparr>) of
                Inl e \<Rightarrow> False
              | Inr tcs \<Rightarrow>
                  map Test_Case_Description tcs =
                    [''Verify page title'', ''Verify meta description'', ''Verify meta keywords'',
                     ''Verify meta viewport'', ''Verify meta charset'', ''Verify meta robots'',
                     ''Verify responsive design meta tag'', ''Verify script loading'',
                     ''Verify stylesheet loading'', ''Verify form elements presence'',
                     ''Verify SEO basics'', ''Verify security measures'',
                     ''Verify social media metadata'', ''Verify image alt texts'',
                     ''Verify heading hierarchy'', ''Check for multiple H1 headings'',
                     ''Verify ARIA landmarks''])"
    unfolding pe .
  then have t: "(case generate_test_cases (pd\<lparr>pd_language := Some ?la\<rparr>) of
                Inl e \<Rightarrow> False
              | Inr tcs \<Rightarrow>
                  map Test_Case_Description tcs =
                    [''Verify page title'', ''Verify meta description'', ''Verify meta keywords'',
                     ''Verify meta viewport'', ''Verify meta charset'', ''Verify meta robots'',
                     ''Verify responsive design meta tag'', ''Verify script loading'',
                     ''Verify stylesheet loading'', ''Verify form elements presence'',
                     ''Verify SEO basics'', ''Verify security measures'',
                     ''Verify social media metadata'', ''Verify image alt texts'',
                     ''Verify heading hierarchy'', ''Check for multiple H1 headings'',
                     ''Verify ARIA landmarks''])"
    unfolding w .
  have r: "analyze sample_urllib short_env (static_net lang_page) (\<lambda>u. True) ''20260101_000000''
         (Some ''http://example.com'') =
       JsonError (''An error occurred while analyzing the website: '' @ [CHR 0x27] @ ''name'' @ [CHR 0x27])
         500"
    by code_simp
  have "(case ?parsed of
      Inl e \<Rightarrow> False
    | Inr pd \<Rightarrow>
        (case analyze_language short_env (Some lang_page) ''http://example.com'' of
           Inl e \<Rightarrow> False
         | Inr la \<Rightarrow>
             la_error la = Some ''Insufficient text content for language analysis''
           \<and> (case generate_test_cases (pd\<lparr>pd_language := Some la\<rparr>) of
                Inl e \<Rightarrow> False
              | Inr tcs \<Rightarrow>
                  map Test_Case_Description tcs =
                    [''Verify page title'', ''Verify meta description'', ''Verify meta keywords'',
                     ''Verify meta viewport'', ''Verify meta charset'', ''Verify meta robots'',
                     ''Verify responsive design meta tag'', ''Verify script loading'',
                     ''Verify stylesheet loading'', ''Verify form elements presence'',
                     ''Verify SEO basics'', ''Verify security measures'',
                     ''Verify social media metadata'', ''Verify image alt texts'',
                     ''Verify heading hierarchy'', ''Check for multiple H1 headings'',
                     ''Verify ARIA landmarks''])))"
    unfolding pd la sum.case using err t by (rule conjI)
  then show ?thesis using r by (rule conjI)
qed

subsection \<open>Determinism\<close>

lemma numbered_Nil: "numbered c [] = []"
  by (simp add: numbered_def add_all_def)

lemma add_all_Cons: "add_all ((d, s, e, a, st) # xs) g = add_all xs (add_test_case d s e a st g)"
  by (simp add: add_all_def)

lemma add_all_test_cases:
  "test_cases (add_all specs g) = test_cases g @ numbered (tc_counter g) specs"
proof (induction specs arbitrary: g)
  case Nil
  show ?case by (simp add: numbered_Nil add_all_Nil)
next
  case (Cons x xs)
  obtain d s e a st where x: "x = (d, s, e, a, st)" by (cases x) auto
  let ?g = "add_test_case d s e a st g"
  let ?h = "add_test_case d s e a st \<lparr>test_cases = [], tc_counter = tc_counter g\<rparr>"
  have c: "tc_counter ?g = tc_counter ?h"
    by (simp add: add_test_case_def)
  have t: "test_cases ?g = test_cases g @ test_cases ?h"
    by (simp add: add_test_case_def)
  have "test_cases (add_all (x # xs) g) = test_cases ?g @ numbered (tc_counter ?g) xs"
    using Cons [of ?g] by (simp add: x add_all_Cons)
  moreover have "numbered (tc_counter g) (x # xs) = test_cases ?h @ numbered (tc_counter ?h) xs"
    using Cons [of ?h] by (simp add: x numbered_def add_all_Cons)
  ultimately show ?case using c t by simp
qed

lemma numbered_without_ids:
  "map (\<lambda>tc. tc\<lparr>TC_ID := []\<rparr>) (numbered c specs) =
   map (\<lambda>tc. tc\<lparr>TC_ID := []\<rparr>) (numbered c' specs)"
proof (induction specs arbitrary: c c')
  case Nil
  show ?case by (simp add: numbered_Nil)
next
  case (Cons x xs)
  obtain d s e a st where x: "x = (d, s, e, a, st)" by (cases x) auto
  have n: "numbered k (x # xs) =
             test_cases (add_test_case d s e a st \<lparr>test_cases = [], tc_counter = k\<rparr>) @
             numbered (Suc k) xs" for k
    using add_all_test_cases [of xs "add_test_case d s e a st \<lparr>test_cases = [], tc_counter = k\<rparr>"]
    by (simp add: x numbered_def add_all_Cons) (simp add: add_test_case_def)
  show ?case
    using Cons [of "Suc c" "Suc c'"] by (simp add: n) (simp add: add_test_case_def)
qed

text \<open>What a uniform method appends depends on the counter alone, and on nothing else of
  the generator it is called on.\<close>

lemma uniform_deterministic:
  assumes "uniform p"
  shows "snd (p g1) = snd (p g2)
       \<and> test_cases (fst (p g1)) = test_cases g1 @ appended p g1
       \<and> map (\<lambda>tc. tc\<lparr>TC_ID := []\<rparr>) (appended p g1) =
           map (\<lambda>tc. tc\<lparr>TC_ID := []\<rparr>) (appended p g2)
       \<and> (tc_counter g1 = tc_counter g2 \<longrightarrow> appended p g1 = appended p g2)"
proof -
  obtain specs r where p: "\<And>g. p g = (add_all specs g, r)"
    using assms unfolding uniform_def by blast
  have a: "appended p g = numbered (tc_counter g) specs" for g
    by (simp add: appended_def p add_all_test_cases)
  show ?thesis
    using numbered_without_ids [of "tc_counter g1" specs "tc_counter g2"]
    by (simp add: a) (simp add: p add_all_test_cases)
qed

lemma uniform_synthesizer: "uniform (run_synthesizer links link_checks forms s la)"
  unfolding run_synthesizer_def
  by (intro uniform_and_then uniform_links uniform_forms uniform_structure
      uniform_accessibility uniform_language)

text \<open>The clock of the route goes into the name of the CSV file and nowhere else.\<close>

lemma analyze_generate_timestamp:
  "(case analyze_generate t1 links link_checks forms s la of
      Rendered tcs f sm \<Rightarrow>
        f = ''test_cases_'' @ t1 @ ''.csv''
      \<and> analyze_generate t2 links link_checks forms s la =
          Rendered tcs (''test_cases_'' @ t2 @ ''.csv'') sm
    | JsonError m c \<Rightarrow> analyze_generate t2 links link_checks forms s la = JsonError m c)"
  by (cases "run_synthesizer links link_checks forms s la TestCaseGenerator_init")
    (simp add: analyze_generate_def outer_error_def split: option.splits)

text \<open>
  C9. The synthesizer reads no clock and nothing of the generator except its counter. For
  the five methods in a row on given links, link checks, forms, structure and language
  analysis, and for the wrapper on given parsed data: the outcome (return or the
  exception raised) is the same on every generator; the test cases present before are
  kept and the new ones appended; on any two generators the new test cases are equal in
  number, order and every field except the identifier; and on two generators with the same
  counter, such as two new ones, they are equal.
\<close>

theorem C9_synthesizer_deterministic:
  "(let run = run_synthesizer links link_checks forms s la in
      snd (run g1) = snd (run g2)
    \<and> test_cases (fst (run g1)) = test_cases g1 @ appended run g1
    \<and> map (\<lambda>tc. tc\<lparr>TC_ID := []\<rparr>) (appended run g1) =
        map (\<lambda>tc. tc\<lparr>TC_ID := []\<rparr>) (appended run g2)
    \<and> (tc_counter g1 = tc_counter g2 \<longrightarrow> appended run g1 = appended run g2))
 \<and> (let wrapper = generate_test_cases_method pd in
      snd (wrapper g1) = snd (wrapper g2)
    \<and> test_cases (fst (wrapper g1)) = test_cases g1 @ appended wrapper g1
    \<and> map (\<lambda>tc. tc\<lparr>TC_ID := []\<rparr>) (appended wrapper g1) =
        map (\<lambda>tc. tc\<lparr>TC_ID := []\<rparr>) (appended wrapper g2)
    \<and> (tc_counter g1 = tc_counter g2 \<longrightarrow> appended wrapper g1 = appended wrapper g2))"
  unfolding Let_def
  using uniform_deterministic [OF uniform_synthesizer, of links link_checks forms s la g1 g2]
    uniform_deterministic [OF uniform_wrapper, of pd g1 g2]
  by blast

theorem C9_witness:
  "(let g1 = add_test_case ''a'' ''b'' ''c'' ''d'' ''Pass'' TestCaseGenerator_init;
        g2 = add_test_case ''v'' ''w'' ''x'' ''y'' ''Fail'' TestCaseGenerator_init;
        run = run_synthesizer [] [] [demo_form] demo_structure demo_language_analysis
    in tc_counter g1 = tc_counter g2 \<and> g1 \<noteq> g2
     \<and> snd (run g1) = None
     \<and> appended run g1 = appended run g2
     \<and> map TC_ID (appended run g1) =
         [''TC_002'', ''TC_003'', ''TC_004'', ''TC_005'', ''TC_006'', ''TC_007'', ''TC_008'',
          ''TC_009'', ''TC_010'', ''TC_011'', ''TC_012''])"
proof -
  let ?g1 = "add_test_case ''a'' ''b'' ''c'' ''d'' ''Pass'' TestCaseGenerator_init"
  let ?g2 = "add_test_case ''v'' ''w'' ''x'' ''y'' ''Fail'' TestCaseGenerator_init"
  let ?run = "run_synthesizer [] [] [demo_form] demo_structure demo_language_analysis"
  have c: "tc_counter ?g1 = tc_counter ?g2"
    by (simp add: add_test_case_def)
  have d: "?g1 \<noteq> ?g2"
    by (simp add: add_test_case_def TestCaseGenerator_init_def)
  have e: "appended ?run ?g1 = appended ?run ?g2"
    using C9_synthesizer_deterministic
      [of "[]" "[]" "[demo_form]" demo_structure demo_language_analysis ?g1 ?g2] c
    by (simp add: Let_def)
  have r: "snd (?run ?g1) = None"
    by code_simp
  have i: "map TC_ID (appended ?run ?g1) =
         [''TC_002'', ''TC_003'', ''TC_004'', ''TC_005'', ''TC_006'', ''TC_007'', ''TC_008'',
          ''TC_009'', ''TC_010'', ''TC_011'', ''TC_012'']"
    by code_simp
  show ?thesis
    unfolding Let_def using c d e r i by blast
qed

end
